theory Spec2Isabelle
  imports Main
begin

section \<open>JavaScript values\<close>

text \<open>
  The instrumentation layer is TypeScript, and TypeScript's types are erased before the
  program runs. Wherever a value crosses a call by position, is tested for truthiness, is
  read through \<^verbatim>\<open>?.\<close> or is handed to \<^verbatim>\<open>JSON.stringify\<close>, the model uses the value as
  JavaScript sees it: a tree of \<^verbatim>\<open>undefined\<close>, \<^verbatim>\<open>null\<close>, booleans, numbers, strings,
  arrays and plain objects. Numbers are the integers (timestamps, durations, token counts,
  status codes), which JavaScript writes in plain decimal below \<open>10\<^sup>2\<^sup>1\<close>; strings are lists
  of code units; an object lists its own enumerable members in enumeration order, each key
  once. These are the values that travel to and from the backend as JSON. Cyclic structures
  and BigInt values, on which \<^verbatim>\<open>JSON.stringify\<close> raises, are outside this type (the bags of
  the converter, which can hold them, have a type of their own below), as are objects with
  a \<^verbatim>\<open>toJSON\<close> or \<^verbatim>\<open>toString\<close> of their own.
\<close>

datatype jsval =
    JUndefined
  | JNull
  | JBool bool
  | JNum int
  | JStr string
  | JArr "jsval list"
  | JObj "(string \<times> jsval) list"

text \<open>Truthiness, as \<^verbatim>\<open>if (v)\<close> and \<^verbatim>\<open>a || b\<close> test it.\<close>

fun truthy :: "jsval \<Rightarrow> bool" where
  "truthy JUndefined = False"
| "truthy JNull = False"
| "truthy (JBool b) = b"
| "truthy (JNum n) = (n \<noteq> 0)"
| "truthy (JStr s) = (s \<noteq> [])"
| "truthy (JArr xs) = True"
| "truthy (JObj kvs) = True"

definition js_or :: "jsval \<Rightarrow> jsval \<Rightarrow> jsval" where
  "js_or a b = (if truthy a then a else b)"

definition nullish :: "jsval \<Rightarrow> bool" where
  "nullish v = (v = JUndefined \<or> v = JNull)"

subsection \<open>Decimal numerals and quoted strings\<close>

definition digit_char :: "nat \<Rightarrow> char" where
  "digit_char d = ''0123456789abcdef'' ! (d mod 16)"

fun dec_nat :: "nat \<Rightarrow> string" where
  "dec_nat n = (if n < 10 then [digit_char n] else dec_nat (n div 10) @ [digit_char (n mod 10)])"

declare dec_nat.simps [simp del]

definition dec_int :: "int \<Rightarrow> string" where
  "dec_int i = (if i < 0 then CHR ''-'' # dec_nat (nat (- i)) else dec_nat (nat i))"

text \<open>
  \<^verbatim>\<open>QuoteJSONString\<close>: the quote and the backslash are escaped, the five control characters
  with a short form use it, every other code unit below 0x20 is written \<^verbatim>\<open>\u00XX\<close>.
\<close>

definition quote_char :: "char \<Rightarrow> string" where
  "quote_char c =
     (let n = (of_char c :: nat) in
      if n = 34 then [CHR 0x5C, CHR 0x22]
      else if n = 92 then [CHR 0x5C, CHR 0x5C]
      else if n = 8 then [CHR 0x5C, CHR ''b'']
      else if n = 9 then [CHR 0x5C, CHR ''t'']
      else if n = 10 then [CHR 0x5C, CHR ''n'']
      else if n = 12 then [CHR 0x5C, CHR ''f'']
      else if n = 13 then [CHR 0x5C, CHR ''r'']
      else if n < 32 then [CHR 0x5C, CHR ''u'', CHR ''0'', CHR ''0'', digit_char (n div 16), digit_char (n mod 16)]
      else [c])"

definition quote :: "string \<Rightarrow> string" where
  "quote s = [CHR 0x22] @ concat (map quote_char s) @ [CHR 0x22]"

fun join :: "string \<Rightarrow> string list \<Rightarrow> string" where
  "join sep [] = []"
| "join sep [x] = x"
| "join sep (x # y # ys) = x @ sep @ join sep (y # ys)"

subsection \<open>\<^verbatim>\<open>JSON.stringify\<close> and \<^verbatim>\<open>String\<close>\<close>

text \<open>
  \<^verbatim>\<open>SerializeJSONProperty\<close>: an \<^verbatim>\<open>undefined\<close> element of an array is written \<^verbatim>\<open>null\<close>, an
  \<^verbatim>\<open>undefined\<close> member of an object is left out, members keep their order (no key
  sorting), and no white space is added.
\<close>

fun serialize :: "jsval \<Rightarrow> string"
  and serialize_elements :: "jsval list \<Rightarrow> string list"
  and serialize_members :: "(string \<times> jsval) list \<Rightarrow> string list" where
  "serialize JUndefined = ''null''"
| "serialize JNull = ''null''"
| "serialize (JBool b) = (if b then ''true'' else ''false'')"
| "serialize (JNum n) = dec_int n"
| "serialize (JStr s) = quote s"
| "serialize (JArr xs) = ''['' @ join '','' (serialize_elements xs) @ '']''"
| "serialize (JObj kvs) = ''{'' @ join '','' (serialize_members kvs) @ ''}''"
| "serialize_elements [] = []"
| "serialize_elements (x # xs) = serialize x # serialize_elements xs"
| "serialize_members [] = []"
| "serialize_members ((k, v) # kvs) =
     (if v = JUndefined then serialize_members kvs
      else (quote k @ '':'' @ serialize v) # serialize_members kvs)"

text \<open>\<^verbatim>\<open>JSON.stringify(v)\<close>: \<^verbatim>\<open>undefined\<close> (here \<open>None\<close>) for \<^verbatim>\<open>undefined\<close>, a string otherwise.\<close>

definition JSON_stringify :: "jsval \<Rightarrow> string option" where
  "JSON_stringify v = (if v = JUndefined then None else Some (serialize v))"

text \<open>\<^verbatim>\<open>String(v)\<close>; an array joins its elements with commas, a nullish one as the empty string.\<close>

fun js_String :: "jsval \<Rightarrow> string"
  and js_String_elements :: "jsval list \<Rightarrow> string list" where
  "js_String JUndefined = ''undefined''"
| "js_String JNull = ''null''"
| "js_String (JBool b) = (if b then ''true'' else ''false'')"
| "js_String (JNum n) = dec_int n"
| "js_String (JStr s) = s"
| "js_String (JArr xs) = join '','' (js_String_elements xs)"
| "js_String (JObj kvs) = ''[object Object]''"
| "js_String_elements [] = []"
| "js_String_elements (x # xs) =
     (if x = JUndefined \<or> x = JNull then [] else js_String x) # js_String_elements xs"

subsection \<open>Failures\<close>

text \<open>
  What a \<^verbatim>\<open>throw\<close> carries: an instance of \<^verbatim>\<open>Error\<close> with its \<^verbatim>\<open>name\<close>, its \<^verbatim>\<open>message\<close> and the
  value of its \<^verbatim>\<open>status\<close> member (\<open>JUndefined\<close> when it has none), or any other value.
\<close>

datatype thrown =
    ErrorInstance string string jsval
  | Thrown jsval

definition TypeError :: "string \<Rightarrow> thrown" where
  "TypeError msg = ErrorInstance ''TypeError'' msg JUndefined"

definition try_bind :: "thrown + 'a \<Rightarrow> ('a \<Rightarrow> thrown + 'b) \<Rightarrow> thrown + 'b" where
  "try_bind m f = (case m of Inl e \<Rightarrow> Inl e | Inr v \<Rightarrow> f v)"

subsection \<open>Values of type \<^verbatim>\<open>unknown\<close>\<close>

text \<open>
  The argument bag of a function call and the response bag of a function response are
  declared \<^verbatim>\<open>Record<string, unknown>\<close>: whatever the caller has built, not only what a JSON
  parser returns. Beyond the JSON trees, such a value can hold a BigInt, and a member or
  element of it can refer back to an object or array that encloses it (a cycle). On both,
  \<^verbatim>\<open>JSON.stringify\<close> raises a TypeError.
\<close>

datatype unknown_value =
    UUndefined
  | UNull
  | UBool bool
  | UNum int
  | UStr string
  | UBigInt int
  | UCycle
  | UArr "unknown_value list"
  | UObj "(string \<times> unknown_value) list"

text \<open>
  The walk of \<^verbatim>\<open>JSON.stringify\<close> over a value, depth first and in member order: the JSON tree
  of the value, or the TypeError of the first BigInt or cyclic reference it meets.
\<close>

fun json_of :: "unknown_value \<Rightarrow> thrown + jsval"
  and json_of_elements :: "unknown_value list \<Rightarrow> thrown + jsval list"
  and json_of_members :: "(string \<times> unknown_value) list \<Rightarrow> thrown + (string \<times> jsval) list" where
  "json_of UUndefined = Inr JUndefined"
| "json_of UNull = Inr JNull"
| "json_of (UBool b) = Inr (JBool b)"
| "json_of (UNum n) = Inr (JNum n)"
| "json_of (UStr s) = Inr (JStr s)"
| "json_of (UBigInt n) = Inl (TypeError ''Do not know how to serialize a BigInt'')"
| "json_of UCycle = Inl (TypeError ''Converting circular structure to JSON'')"
| "json_of (UArr xs) = try_bind (json_of_elements xs) (\<lambda>js. Inr (JArr js))"
| "json_of (UObj kvs) = try_bind (json_of_members kvs) (\<lambda>js. Inr (JObj js))"
| "json_of_elements [] = Inr []"
| "json_of_elements (x # xs) =
     try_bind (json_of x) (\<lambda>j. try_bind (json_of_elements xs) (\<lambda>js. Inr (j # js)))"
| "json_of_members [] = Inr []"
| "json_of_members ((k, v) # kvs) =
     try_bind (json_of v) (\<lambda>j. try_bind (json_of_members kvs) (\<lambda>js. Inr ((k, j) # js)))"

text \<open>
  \<^verbatim>\<open>JSON.stringify(v)\<close> for a value of type \<^verbatim>\<open>unknown\<close>: a TypeError, or what \<^verbatim>\<open>JSON.stringify\<close>
  gives for the JSON tree (\<^verbatim>\<open>undefined\<close> for \<^verbatim>\<open>undefined\<close>, a string otherwise).
\<close>

definition JSON_stringify_unknown :: "unknown_value \<Rightarrow> thrown + string option" where
  "JSON_stringify_unknown v = try_bind (json_of v) (\<lambda>j. Inr (JSON_stringify j))"

section \<open>The semantic converter\<close>

text \<open>
  The turns and segments of \<^verbatim>\<open>@google/genai\<close> as \<^verbatim>\<open>toSemanticMessage\<close> reads them. An
  optional member is an \<open>option\<close>; the argument and response bags are values of type
  \<^verbatim>\<open>unknown\<close> (\<open>UUndefined\<close> when absent). \<open>other\<close> holds the members of a segment that the
  converter never looks at (inline data, file data, ...).
\<close>

record FunctionCall =
  fc_name :: "string option"
  fc_id :: "string option"
  fc_args :: unknown_value

record FunctionResponse =
  fr_name :: "string option"
  fr_id :: "string option"
  fr_response :: unknown_value

record Part =
  "text" :: "string option"
  functionCall :: "FunctionCall option"
  functionResponse :: "FunctionResponse option"
  other :: "(string \<times> jsval) list"

record Content =
  role :: "string option"
  parts :: "Part list option"

text \<open>
  The message parts: the five classes of the source, each with the members its constructor
  sets. The \<^verbatim>\<open>type\<close> tag of the first four is fixed by the class.
\<close>

datatype MessagePart =
    TextPart string
  | ToolCallRequestPart "string option" "string option" "string option"
  | ToolCallResponsePart "string option" "string option"
  | ReasoningPart string
  | GenericPart string "(string \<times> jsval) list"

record ChatMessage =
  msg_role :: "string option"
  msg_parts :: "MessagePart list"

text \<open>The tag a part carries in its \<^verbatim>\<open>type\<close> member.\<close>

fun part_type :: "MessagePart \<Rightarrow> string" where
  "part_type (TextPart c) = ''text''"
| "part_type (ToolCallRequestPart n i a) = ''tool_call''"
| "part_type (ToolCallResponsePart r i) = ''tool_call_response''"
| "part_type (ReasoningPart c) = ''reasoning''"
| "part_type (GenericPart t d) = t"

text \<open>\<^verbatim>\<open>if (part.text)\<close>: an absent text and the empty string are both falsy.\<close>

fun truthy_text :: "string option \<Rightarrow> string option" where
  "truthy_text None = None"
| "truthy_text (Some t) = (if t = [] then None else Some t)"

text \<open>
  The body of the inner loop: at most one \<^verbatim>\<open>push\<close> onto \<^verbatim>\<open>message.parts\<close>. The two calls of
  \<^verbatim>\<open>JSON.stringify\<close> stand in no \<^verbatim>\<open>try\<close>: their TypeError leaves the function.
\<close>

definition push_part :: "Part \<Rightarrow> MessagePart list \<Rightarrow> thrown + MessagePart list" where
  "push_part part ps =
     (case truthy_text (text part) of
        Some t \<Rightarrow> Inr (ps @ [TextPart t])
      | None \<Rightarrow>
         (case functionCall part of
            Some fc \<Rightarrow>
              try_bind (JSON_stringify_unknown (fc_args fc))
                (\<lambda>arguments. Inr (ps @ [ToolCallRequestPart (fc_name fc) (fc_id fc) arguments]))
          | None \<Rightarrow>
             (case functionResponse part of
                Some fr \<Rightarrow>
                  try_bind (JSON_stringify_unknown (fr_response fr))
                    (\<lambda>response. Inr (ps @ [ToolCallResponsePart response (fr_id fr)]))
              | None \<Rightarrow> Inr ps)))"

text \<open>\<^verbatim>\<open>for (const part of content.parts)\<close>, with \<^verbatim>\<open>message.parts\<close> as the accumulator.\<close>

fun parts_loop :: "Part list \<Rightarrow> MessagePart list \<Rightarrow> thrown + MessagePart list" where
  "parts_loop [] ps = Inr ps"
| "parts_loop (part # rest) ps = try_bind (push_part part ps) (parts_loop rest)"

text \<open>
  The body of the outer loop: the message starts with the turn's role and no parts, and is
  pushed only inside \<^verbatim>\<open>if (content.parts)\<close>.
\<close>

definition push_message :: "Content \<Rightarrow> ChatMessage list \<Rightarrow> thrown + ChatMessage list" where
  "push_message content messages =
     (case parts content of
        Some segs \<Rightarrow>
          try_bind (parts_loop segs [])
            (\<lambda>ps. Inr (messages @ [\<lparr>msg_role = role content, msg_parts = ps\<rparr>]))
      | None \<Rightarrow> Inr messages)"

fun contents_loop :: "Content list \<Rightarrow> ChatMessage list \<Rightarrow> thrown + ChatMessage list" where
  "contents_loop [] messages = Inr messages"
| "contents_loop (content # rest) messages =
     try_bind (push_message content messages) (contents_loop rest)"

definition toSemanticMessage :: "Content list \<Rightarrow> thrown + ChatMessage list" where
  "toSemanticMessage contents = contents_loop contents []"

text \<open>
  The JavaScript objects behind the typed values, for \<^verbatim>\<open>JSON.stringify\<close>: a turn and a
  segment list their members in the order of their type's declaration, an absent member is
  \<^verbatim>\<open>undefined\<close>; a message is the literal \<^verbatim>\<open>{ role, parts }\<close>, a part lists \<^verbatim>\<open>type\<close> first and
  then the members in the order its class declares and sets them. The turns of a request
  travel to the backend as JSON: a bag of theirs is its JSON tree (a bag that has none
  cannot be sent, and is left \<^verbatim>\<open>undefined\<close> here).
\<close>

fun js_of_string_option :: "string option \<Rightarrow> jsval" where
  "js_of_string_option None = JUndefined"
| "js_of_string_option (Some s) = JStr s"

definition js_of_bag :: "unknown_value \<Rightarrow> jsval" where
  "js_of_bag b = (case json_of b of Inl e \<Rightarrow> JUndefined | Inr j \<Rightarrow> j)"

definition js_of_FunctionCall :: "FunctionCall \<Rightarrow> jsval" where
  "js_of_FunctionCall fc =
     JObj [(''name'', js_of_string_option (fc_name fc)), (''id'', js_of_string_option (fc_id fc)),
           (''args'', js_of_bag (fc_args fc))]"

definition js_of_FunctionResponse :: "FunctionResponse \<Rightarrow> jsval" where
  "js_of_FunctionResponse fr =
     JObj [(''name'', js_of_string_option (fr_name fr)), (''id'', js_of_string_option (fr_id fr)),
           (''response'', js_of_bag (fr_response fr))]"

definition js_of_Part :: "Part \<Rightarrow> jsval" where
  "js_of_Part part =
     JObj ([(''text'', js_of_string_option (text part)),
            (''functionCall'',
               (case functionCall part of None \<Rightarrow> JUndefined | Some fc \<Rightarrow> js_of_FunctionCall fc)),
            (''functionResponse'',
               (case functionResponse part of None \<Rightarrow> JUndefined
                | Some fr \<Rightarrow> js_of_FunctionResponse fr))]
           @ other part)"

definition js_of_Content :: "Content \<Rightarrow> jsval" where
  "js_of_Content content =
     JObj [(''role'', js_of_string_option (role content)),
           (''parts'',
              (case parts content of None \<Rightarrow> JUndefined | Some segs \<Rightarrow> JArr (map js_of_Part segs)))]"

fun js_of_MessagePart :: "MessagePart \<Rightarrow> jsval" where
  "js_of_MessagePart (TextPart c) = JObj [(''type'', JStr ''text''), (''content'', JStr c)]"
| "js_of_MessagePart (ToolCallRequestPart n i a) =
     JObj [(''type'', JStr ''tool_call''), (''name'', js_of_string_option n),
           (''id'', js_of_string_option i), (''arguments'', js_of_string_option a)]"
| "js_of_MessagePart (ToolCallResponsePart r i) =
     JObj [(''type'', JStr ''tool_call_response''), (''response'', js_of_string_option r),
           (''id'', js_of_string_option i)]"
| "js_of_MessagePart (ReasoningPart c) = JObj [(''type'', JStr ''reasoning''), (''content'', JStr c)]"
| "js_of_MessagePart (GenericPart t d) =
     JObj ((''type'', (case map_of d ''type'' of None \<Rightarrow> JStr t | Some v \<Rightarrow> v))
           # filter (\<lambda>kv. fst kv \<noteq> ''type'') d)"

definition js_of_ChatMessage :: "ChatMessage \<Rightarrow> jsval" where
  "js_of_ChatMessage m =
     JObj [(''role'', js_of_string_option (msg_role m)),
           (''parts'', JArr (map js_of_MessagePart (msg_parts m)))]"

text \<open>
  The request text that the semantic converter would give: the serialized messages of the
  turns.
\<close>

definition semantic_request_text :: "Content list \<Rightarrow> thrown + string option" where
  "semantic_request_text turns =
     try_bind (toSemanticMessage turns)
       (\<lambda>messages. Inr (JSON_stringify (JArr (map js_of_ChatMessage messages))))"

subsection \<open>The converter as the specification words it\<close>

text \<open>
  Section 3 of the specification: a segment is a text segment, a function-call segment or a
  function-response segment, and segments with none of these fields are ignored.
\<close>

definition is_segment :: "Part \<Rightarrow> bool" where
  "is_segment part =
     (\<not> (text part = None \<and> functionCall part = None \<and> functionResponse part = None))"

text \<open>
  The reading the converter follows: a text counts when it is a string that is not empty. A segment is
  recognised when it has such a text, a function call or a function response; its part
  follows the precedence text, function call, function response, with a bag in its
  serialized form. These definitions are written from the words alone, on the fields of
  the segment.
\<close>

definition has_text :: "Part \<Rightarrow> bool" where
  "has_text part = (case text part of None \<Rightarrow> False | Some t \<Rightarrow> t \<noteq> [])"

definition recognized :: "Part \<Rightarrow> bool" where
  "recognized part =
     (\<not> (\<not> has_text part \<and> functionCall part = None \<and> functionResponse part = None))"

definition serialized :: "unknown_value \<Rightarrow> string option" where
  "serialized b = (case JSON_stringify_unknown b of Inl e \<Rightarrow> None | Inr s \<Rightarrow> s)"

definition semantic_part :: "Part \<Rightarrow> MessagePart option" where
  "semantic_part part =
     (if has_text part then map_option TextPart (text part)
      else
        (case functionCall part of
           Some fc \<Rightarrow>
             Some (ToolCallRequestPart (fc_name fc) (fc_id fc) (serialized (fc_args fc)))
         | None \<Rightarrow>
             map_option
               (\<lambda>fr. ToolCallResponsePart (serialized (fr_response fr)) (fr_id fr))
               (functionResponse part)))"

definition semantic_message :: "Content \<Rightarrow> ChatMessage option" where
  "semantic_message content =
     map_option
       (\<lambda>segs. \<lparr>msg_role = role content, msg_parts = List.map_filter semantic_part segs\<rparr>)
       (parts content)"

definition spec_toSemanticMessage :: "Content list \<Rightarrow> ChatMessage list" where
  "spec_toSemanticMessage turns = List.map_filter semantic_message turns"

definition has_parts :: "Content \<Rightarrow> bool" where
  "has_parts content = (parts content \<noteq> None)"

definition segments :: "Content \<Rightarrow> Part list" where
  "segments content = (case parts content of None \<Rightarrow> [] | Some segs \<Rightarrow> segs)"

definition drop_unrecognized :: "Content \<Rightarrow> Content" where
  "drop_unrecognized content = content\<lparr>parts := map_option (filter recognized) (parts content)\<rparr>"

text \<open>
  A bag is serializable when \<^verbatim>\<open>JSON.stringify\<close> accepts it: it holds no BigInt and no cyclic
  reference. The turns are serializable when every bag in them is.
\<close>

definition serializable :: "unknown_value \<Rightarrow> bool" where
  "serializable b = (case json_of b of Inl e \<Rightarrow> False | Inr j \<Rightarrow> True)"

definition serializable_part :: "Part \<Rightarrow> bool" where
  "serializable_part part =
     ((case functionCall part of None \<Rightarrow> True | Some fc \<Rightarrow> serializable (fc_args fc))
      \<and> (case functionResponse part of None \<Rightarrow> True | Some fr \<Rightarrow> serializable (fr_response fr)))"

definition serializable_turns :: "Content list \<Rightarrow> bool" where
  "serializable_turns turns = list_all (\<lambda>content. list_all serializable_part (segments content)) turns"

section \<open>The logging content generator\<close>

subsection \<open>Property reads\<close>

text \<open>
  Reading the member \<open>k\<close> of a value that is neither \<^verbatim>\<open>undefined\<close> nor \<^verbatim>\<open>null\<close>. The source
  reads members by identifier only; a string and an array have a \<^verbatim>\<open>length\<close>, a number and
  a boolean have none of the members read.
\<close>

fun own_property :: "jsval \<Rightarrow> string \<Rightarrow> jsval" where
  "own_property (JObj kvs) k = (case map_of kvs k of None \<Rightarrow> JUndefined | Some v \<Rightarrow> v)"
| "own_property (JStr s) k = (if k = ''length'' then JNum (int (length s)) else JUndefined)"
| "own_property (JArr xs) k = (if k = ''length'' then JNum (int (length xs)) else JUndefined)"
| "own_property v k = JUndefined"

text \<open>\<^verbatim>\<open>v.k\<close> raises a TypeError on \<^verbatim>\<open>undefined\<close> and \<^verbatim>\<open>null\<close>; \<^verbatim>\<open>v?.k\<close> gives \<^verbatim>\<open>undefined\<close> there.\<close>

definition member :: "jsval \<Rightarrow> string \<Rightarrow> thrown + jsval" where
  "member v k =
     (if nullish v then Inl (TypeError (''Cannot read properties of '' @ js_String v))
      else Inr (own_property v k))"

definition opt_member :: "jsval \<Rightarrow> string \<Rightarrow> jsval" where
  "opt_member v k = (if nullish v then JUndefined else own_property v k)"

text \<open>\<^verbatim>\<open>v?.[i]\<close>: an element of an array, a code unit of a string, the member named by the index.\<close>

fun element :: "jsval \<Rightarrow> nat \<Rightarrow> jsval" where
  "element (JArr xs) i = (if i < length xs then xs ! i else JUndefined)"
| "element (JStr s) i = (if i < length s then JStr [s ! i] else JUndefined)"
| "element (JObj kvs) i = (case map_of kvs (dec_nat i) of None \<Rightarrow> JUndefined | Some v \<Rightarrow> v)"
| "element v i = JUndefined"

definition opt_index :: "jsval \<Rightarrow> nat \<Rightarrow> jsval" where
  "opt_index v i = (if nullish v then JUndefined else element v i)"

subsection \<open>Events, the sink and the backend\<close>

text \<open>
  Modelled from the spec: the event classes of \<^verbatim>\<open>telemetry/types.js\<close> are not among the
  sources. An event is the tuple of the arguments its constructor is called with, in the
  order of the call, named as section 3 of the specification lists them. A request event:
  model identifier, correlation id, serialized request. A response event: model identifier,
  elapsed duration, correlation id, generation parameters, prompt snapshot, response
  snapshot, auth mode, raw usage metadata, serialized response text. An error event: model
  identifier, error message, elapsed duration, correlation id, auth mode, error kind,
  status code.
\<close>

datatype event =
    ApiRequestEvent jsval jsval jsval
  | ApiResponseEvent jsval jsval jsval jsval jsval jsval jsval jsval jsval
  | ApiErrorEvent jsval jsval jsval jsval jsval jsval jsval

fun is_request :: "event \<Rightarrow> bool" where
  "is_request (ApiRequestEvent m p t) = True"
| "is_request e = False"

fun is_response :: "event \<Rightarrow> bool" where
  "is_response (ApiResponseEvent m d p g pr r a u t) = True"
| "is_response e = False"

fun is_error :: "event \<Rightarrow> bool" where
  "is_error (ApiErrorEvent m msg d p a k s) = True"
| "is_error e = False"

text \<open>The members of a response event the claims speak of, by constructor position.\<close>

fun response_model :: "event \<Rightarrow> jsval" where
  "response_model (ApiResponseEvent m d p g pr r a u t) = m"
| "response_model e = JUndefined"

fun response_duration :: "event \<Rightarrow> jsval" where
  "response_duration (ApiResponseEvent m d p g pr r a u t) = d"
| "response_duration e = JUndefined"

fun response_prompt_id :: "event \<Rightarrow> jsval" where
  "response_prompt_id (ApiResponseEvent m d p g pr r a u t) = p"
| "response_prompt_id e = JUndefined"

fun response_details :: "event \<Rightarrow> jsval" where
  "response_details (ApiResponseEvent m d p g pr r a u t) = r"
| "response_details e = JUndefined"

fun response_usage :: "event \<Rightarrow> jsval" where
  "response_usage (ApiResponseEvent m d p g pr r a u t) = u"
| "response_usage e = JUndefined"

fun response_text :: "event \<Rightarrow> jsval" where
  "response_text (ApiResponseEvent m d p g pr r a u t) = t"
| "response_text e = JUndefined"

record GenerateContentParameters =
  model :: string
  contents :: jsval
  config :: jsval

text \<open>
  An asynchronous generator of response chunks: each \<^verbatim>\<open>next()\<close> settles after some
  milliseconds with a chunk, with normal completion, or with a failure.
\<close>

datatype stream =
    Chunk int jsval stream
  | Return int
  | Throw int thrown

fun yielding :: "(int \<times> jsval) list \<Rightarrow> stream \<Rightarrow> stream" where
  "yielding [] s = s"
| "yielding ((d, c) # cs) s = Chunk d c (yielding cs s)"

text \<open>
  The wrapped generator: for each operation, the milliseconds until its promise settles
  and what it settles with (\<open>Inl\<close> a rejection).
\<close>

record ContentGenerator =
  wrapped_generateContent :: "GenerateContentParameters \<Rightarrow> string \<Rightarrow> int \<times> (thrown + jsval)"
  wrapped_generateContentStream :: "GenerateContentParameters \<Rightarrow> string \<Rightarrow> int \<times> (thrown + stream)"
  wrapped_countTokens :: "jsval \<Rightarrow> int \<times> (thrown + jsval)"
  wrapped_embedContent :: "jsval \<Rightarrow> int \<times> (thrown + jsval)"

text \<open>
  The decorator: the generator it wraps and, of its configuration, the auth type that
  \<^verbatim>\<open>this.config.getContentGeneratorConfig()?.authType\<close> reads. \<^verbatim>\<open>toContents\<close>
  (\<^verbatim>\<open>code_assist/converter.js\<close>, returning an array of turns) and \<^verbatim>\<open>isStructuredError\<close>
  (\<^verbatim>\<open>utils/quotaErrorDetection.js\<close>) are imported from files that are not among the sources;
  they are parameters of the model.
\<close>

record LoggingContentGenerator =
  wrapped :: ContentGenerator
  authType :: jsval
  toContents :: "jsval \<Rightarrow> jsval list"
  isStructuredError :: "thrown \<Rightarrow> bool"

text \<open>What can be observed of a call, in order: events at the sink, calls of the wrapped
  generator with the arguments it receives, chunks handed to the consumer of a stream.\<close>

datatype call =
    GenerateContent GenerateContentParameters string
  | GenerateContentStream GenerateContentParameters string
  | CountTokens jsval
  | EmbedContent jsval

datatype action =
    Emitted event
  | Invoked call
  | Forwarded jsval

record world =
  now :: int
  trace :: "action list"

text \<open>
  Modelled from the spec: \<^verbatim>\<open>logApiRequest\<close>, \<^verbatim>\<open>logApiResponse\<close> and \<^verbatim>\<open>logApiError\<close> of
  \<^verbatim>\<open>telemetry/loggers.js\<close> are not among the sources. Each hands the finished event to the
  sink, which does not fail.
\<close>

definition emit :: "event \<Rightarrow> world \<Rightarrow> world" where
  "emit e w = w\<lparr>trace := trace w @ [Emitted e]\<rparr>"

text \<open>Awaiting the wrapped generator: the call is observed and the clock moves on.\<close>

definition await :: "call \<Rightarrow> int \<Rightarrow> world \<Rightarrow> world" where
  "await c d w = w\<lparr>now := now w + d, trace := trace w @ [Invoked c]\<rparr>"

definition tick :: "int \<Rightarrow> world \<Rightarrow> world" where
  "tick d w = w\<lparr>now := now w + d\<rparr>"

definition forward :: "jsval \<Rightarrow> world \<Rightarrow> world" where
  "forward c w = w\<lparr>trace := trace w @ [Forwarded c]\<rparr>"

fun emitted :: "action list \<Rightarrow> event list" where
  "emitted [] = []"
| "emitted (Emitted e # as) = e # emitted as"
| "emitted (a # as) = emitted as"

fun forwarded :: "action list \<Rightarrow> jsval list" where
  "forwarded [] = []"
| "forwarded (Forwarded c # as) = c # forwarded as"
| "forwarded (a # as) = forwarded as"

subsection \<open>The private logging methods\<close>

text \<open>The method \<^verbatim>\<open>logApiRequest(contents, model, promptId)\<close>.\<close>

definition logApiRequest ::
  "LoggingContentGenerator \<Rightarrow> jsval \<Rightarrow> jsval \<Rightarrow> jsval \<Rightarrow> world \<Rightarrow> world" where
  "logApiRequest this cts mdl promptId w =
     (let requestText = js_of_string_option (JSON_stringify cts)
      in emit (ApiRequestEvent mdl promptId requestText) w)"

text \<open>
  The method \<^verbatim>\<open>_logApiResponse(contents, durationMs, model, prompt_id, responseId,
  usageMetadata, responseText, finish_reason, generationConfig)\<close>. Its parameters are bound by
  position to whatever the caller passes. \<^verbatim>\<open>content_str.length\<close> raises when
  \<^verbatim>\<open>JSON.stringify\<close> gave \<^verbatim>\<open>undefined\<close>, before any event is built.
\<close>

definition generation_params :: "jsval \<Rightarrow> jsval \<Rightarrow> jsval" where
  "generation_params mdl generationConfig =
     JObj [(''model'', mdl),
           (''temperature'', opt_member generationConfig ''temperature''),
           (''top_p'', opt_member generationConfig ''topP''),
           (''top_k'', opt_member generationConfig ''topK'')]"

definition prompt_snapshot :: "jsval \<Rightarrow> jsval \<Rightarrow> jsval" where
  "prompt_snapshot content_str prompt_length =
     JObj [(''prompt'', content_str), (''prompt_length'', prompt_length)]"

definition response_snapshot :: "jsval \<Rightarrow> jsval \<Rightarrow> jsval \<Rightarrow> jsval" where
  "response_snapshot finish_reason responseId usageMetadata =
     JObj [(''finish_reason'', finish_reason),
           (''response_id'', responseId),
           (''input_token_count'', opt_member usageMetadata ''promptTokenCount''),
           (''output_token_count'', opt_member usageMetadata ''candidatesTokenCount''),
           (''cached_content_token_count'', opt_member usageMetadata ''cachedContentTokenCount''),
           (''thoughts_token_count'', opt_member usageMetadata ''thoughtsTokenCount''),
           (''tool_token_count'', opt_member usageMetadata ''toolUsePromptTokenCount''),
           (''total_token_count'', opt_member usageMetadata ''totalTokenCount'')]"

definition priv_logApiResponse ::
  "LoggingContentGenerator \<Rightarrow> jsval \<Rightarrow> jsval \<Rightarrow> jsval \<Rightarrow> jsval \<Rightarrow> jsval \<Rightarrow> jsval \<Rightarrow> jsval \<Rightarrow> jsval
     \<Rightarrow> jsval \<Rightarrow> world \<Rightarrow> thrown + world" where
  "priv_logApiResponse this cts durationMs mdl prompt_id responseId usageMetadata responseText
       finish_reason generationConfig w =
     (let content_str = js_of_string_option (JSON_stringify cts) in
      try_bind (member content_str ''length'') (\<lambda>prompt_length.
        Inr (emit
          (ApiResponseEvent mdl durationMs prompt_id
             (generation_params mdl generationConfig)
             (prompt_snapshot content_str prompt_length)
             (response_snapshot finish_reason responseId usageMetadata)
             (authType this) usageMetadata responseText)
          w)))"

text \<open>\<^verbatim>\<open>(error as StructuredError).status\<close>: a member read, raising on a nullish value.\<close>

fun status_of :: "thrown \<Rightarrow> thrown + jsval" where
  "status_of (ErrorInstance n m s) = Inr s"
| "status_of (Thrown v) = member v ''status''"

text \<open>
  The method \<^verbatim>\<open>_logApiError(durationMs, error, model, prompt_id)\<close>: the message and the kind
  of the failure, and its status when \<^verbatim>\<open>isStructuredError\<close> accepts it.
\<close>

fun errorMessage :: "thrown \<Rightarrow> jsval" where
  "errorMessage (ErrorInstance n m s) = JStr m"
| "errorMessage (Thrown v) = JStr (js_String v)"

fun errorType :: "thrown \<Rightarrow> jsval" where
  "errorType (ErrorInstance n m s) = JStr n"
| "errorType (Thrown v) = JStr ''unknown''"

definition priv_logApiError ::
  "LoggingContentGenerator \<Rightarrow> jsval \<Rightarrow> thrown \<Rightarrow> jsval \<Rightarrow> jsval \<Rightarrow> world \<Rightarrow> thrown + world" where
  "priv_logApiError this durationMs error mdl prompt_id w =
     try_bind (if isStructuredError this error then status_of error else Inr JUndefined)
       (\<lambda>status.
          Inr (emit
            (ApiErrorEvent mdl (errorMessage error) durationMs prompt_id (authType this)
               (errorType error) status)
            w))"

text \<open>
  A \<^verbatim>\<open>catch (error)\<close> block that logs the failure and throws it again; a failure of the
  logging call itself replaces it.
\<close>

definition log_and_rethrow ::
  "LoggingContentGenerator \<Rightarrow> jsval \<Rightarrow> thrown \<Rightarrow> jsval \<Rightarrow> jsval \<Rightarrow> world \<Rightarrow> thrown \<times> world" where
  "log_and_rethrow this durationMs error mdl prompt_id w =
     (case priv_logApiError this durationMs error mdl prompt_id w of
        Inl e \<Rightarrow> (e, w)
      | Inr w' \<Rightarrow> (error, w'))"

subsection \<open>Single-shot generation\<close>

definition generateContent ::
  "LoggingContentGenerator \<Rightarrow> GenerateContentParameters \<Rightarrow> string \<Rightarrow> world
     \<Rightarrow> (thrown + jsval) \<times> world" where
  "generateContent this req userPromptId w0 =
     (let startTime = now w0;
          cts = JArr (toContents this (contents req));
          w1 = logApiRequest this (JArr (toContents this (contents req))) (JStr (model req))
                 (JStr userPromptId) w0;
          (d, settled) = wrapped_generateContent (wrapped this) req userPromptId;
          w2 = await (GenerateContent req userPromptId) d w1;
          attempt =
            (case settled of
               Inl error \<Rightarrow> Inl error
             | Inr response \<Rightarrow>
                 try_bind (member response ''modelVersion'') (\<lambda>modelVersion.
                 try_bind (member response ''responseId'') (\<lambda>responseId.
                 try_bind (member response ''usageMetadata'') (\<lambda>usageMetadata.
                 try_bind (member response ''candidates'') (\<lambda>candidates.
                 try_bind
                   (priv_logApiResponse this cts (JNum (now w2 - startTime))
                      (js_or modelVersion (JStr (model req))) (JStr userPromptId) responseId
                      usageMetadata (js_of_string_option (JSON_stringify response))
                      (opt_member (opt_index candidates 0) ''finishReason'') (config req) w2)
                   (\<lambda>w3. Inr (response, w3)))))))
      in case attempt of
           Inr (response, w3) \<Rightarrow> (Inr response, w3)
         | Inl error \<Rightarrow>
             (let (e, w3) = log_and_rethrow this (JNum (now w2 - startTime)) error
                              (JStr (model req)) (JStr userPromptId) w2
              in (Inl e, w3)))"

subsection \<open>Streaming generation\<close>

text \<open>The local variables of \<^verbatim>\<open>loggingStreamWrapper\<close>.\<close>

record accumulator =
  responses :: "jsval list"
  lastUsageMetadata :: jsval
  finishReason :: jsval

text \<open>
  \<^verbatim>\<open>for await (const response of stream)\<close>, driven by a consumer that asks for every chunk.
  The result says whether the loop ended by a failure, and with which variables. The second
  read \<^verbatim>\<open>response.candidates[0].finishReason\<close> returns the value the condition just tested.
\<close>

fun for_await :: "stream \<Rightarrow> accumulator \<Rightarrow> world \<Rightarrow> thrown option \<times> accumulator \<times> world" where
  "for_await (Return d) acc w = (None, acc, tick d w)"
| "for_await (Throw d error) acc w = (Some error, acc, tick d w)"
| "for_await (Chunk d response rest) acc w =
     (let w1 = tick d w;
          acc1 = acc\<lparr>responses := responses acc @ [response]\<rparr>
      in case member response ''usageMetadata'' of
           Inl e \<Rightarrow> (Some e, acc1, w1)
         | Inr usageMetadata \<Rightarrow>
             (let acc2 = (if truthy usageMetadata then acc1\<lparr>lastUsageMetadata := usageMetadata\<rparr>
                          else acc1)
              in case member response ''candidates'' of
                   Inl e \<Rightarrow> (Some e, acc2, w1)
                 | Inr candidates \<Rightarrow>
                     (let reason = opt_member (opt_index candidates 0) ''finishReason'';
                          acc3 = (if truthy reason then acc2\<lparr>finishReason := reason\<rparr> else acc2)
                      in for_await rest acc3 (forward response w1))))"

text \<open>
  The generator \<^verbatim>\<open>loggingStreamWrapper(stream, startTime, userPromptId, model)\<close>, driven to its
  end: \<open>None\<close> when it completes, \<open>Some\<close> failure when it raises one to its consumer. The
  call of \<^verbatim>\<open>_logApiResponse\<close> passes seven arguments, the first of them \<^verbatim>\<open>durationMs\<close>; the
  last two parameters stay \<^verbatim>\<open>undefined\<close>.
\<close>

definition loggingStreamWrapper ::
  "LoggingContentGenerator \<Rightarrow> stream \<Rightarrow> int \<Rightarrow> string \<Rightarrow> string \<Rightarrow> world
     \<Rightarrow> thrown option \<times> world" where
  "loggingStreamWrapper this strm startTime userPromptId mdl w =
     (let (failed, acc, w1) =
            for_await strm
              \<lparr>responses = [], lastUsageMetadata = JUndefined, finishReason = JUndefined\<rparr> w;
          first = opt_index (JArr (responses acc)) 0;
          attempt =
            (case failed of
               Some error \<Rightarrow> Inl error
             | None \<Rightarrow>
                 priv_logApiResponse this
                   (JNum (now w1 - startTime))
                   (js_or (opt_member first ''modelVersion'') (JStr mdl))
                   (JStr userPromptId)
                   (opt_member first ''responseId'')
                   (lastUsageMetadata acc)
                   (js_of_string_option (JSON_stringify (JArr (responses acc))))
                   (finishReason acc)
                   JUndefined JUndefined w1)
      in case attempt of
           Inr w2 \<Rightarrow> (None, w2)
         | Inl error \<Rightarrow>
             (let (e, w2) = log_and_rethrow this (JNum (now w1 - startTime)) error
                              (js_or (opt_member first ''modelVersion'') (JStr mdl))
                              (JStr userPromptId) w1
              in (Some e, w2)))"

definition generateContentStream ::
  "LoggingContentGenerator \<Rightarrow> GenerateContentParameters \<Rightarrow> string \<Rightarrow> world
     \<Rightarrow> (thrown + (world \<Rightarrow> thrown option \<times> world)) \<times> world" where
  "generateContentStream this req userPromptId w0 =
     (let startTime = now w0;
          w1 = logApiRequest this (JArr (toContents this (contents req))) (JStr (model req))
                 (JStr userPromptId) w0;
          (d, settled) = wrapped_generateContentStream (wrapped this) req userPromptId;
          w2 = await (GenerateContentStream req userPromptId) d w1
      in case settled of
           Inl error \<Rightarrow>
             (let (e, w3) = log_and_rethrow this (JNum (now w2 - startTime)) error
                              (JStr (model req)) (JStr userPromptId) w2
              in (Inl e, w3))
         | Inr strm \<Rightarrow>
             (Inr (loggingStreamWrapper this strm startTime userPromptId (model req)), w2))"

text \<open>A caller that awaits the stream and iterates it to its end.\<close>

definition consume ::
  "(thrown + (world \<Rightarrow> thrown option \<times> world)) \<times> world \<Rightarrow> thrown option \<times> world" where
  "consume r = (case r of (Inl error, w) \<Rightarrow> (Some error, w) | (Inr generator, w) \<Rightarrow> generator w)"

subsection \<open>Token counting and embedding\<close>

definition countTokens ::
  "LoggingContentGenerator \<Rightarrow> jsval \<Rightarrow> world \<Rightarrow> (thrown + jsval) \<times> world" where
  "countTokens this req w =
     (let (d, settled) = wrapped_countTokens (wrapped this) req
      in (settled, await (CountTokens req) d w))"

definition embedContent ::
  "LoggingContentGenerator \<Rightarrow> jsval \<Rightarrow> world \<Rightarrow> (thrown + jsval) \<times> world" where
  "embedContent this req w =
     (let (d, settled) = wrapped_embedContent (wrapped this) req
      in (settled, await (EmbedContent req) d w))"

section \<open>What the events of a call are\<close>

text \<open>
  \<^verbatim>\<open>isStructuredError\<close> is a type guard for objects with a \<^verbatim>\<open>status\<close>; it is well behaved on a
  failure when it does not accept a thrown \<^verbatim>\<open>undefined\<close> or \<^verbatim>\<open>null\<close>, whose \<^verbatim>\<open>status\<close>
  cannot be read.
\<close>

definition status_readable :: "LoggingContentGenerator \<Rightarrow> thrown \<Rightarrow> bool" where
  "status_readable this error =
     (\<not> (isStructuredError this error \<and> (error = Thrown JUndefined \<or> error = Thrown JNull)))"

fun status_value :: "thrown \<Rightarrow> jsval" where
  "status_value (ErrorInstance n m s) = s"
| "status_value (Thrown v) = own_property v ''status''"

text \<open>The request event of a call: the serialized result of \<^verbatim>\<open>toContents\<close>.\<close>

definition request_event ::
  "LoggingContentGenerator \<Rightarrow> GenerateContentParameters \<Rightarrow> string \<Rightarrow> event" where
  "request_event this req pid =
     ApiRequestEvent (JStr (model req)) (JStr pid)
       (JStr (serialize (JArr (toContents this (contents req)))))"

text \<open>The error event for a failure, with the duration, model and correlation id given.\<close>

definition error_event ::
  "LoggingContentGenerator \<Rightarrow> jsval \<Rightarrow> thrown \<Rightarrow> jsval \<Rightarrow> jsval \<Rightarrow> event" where
  "error_event this dur error mdl pid =
     ApiErrorEvent mdl (errorMessage error) dur pid (authType this) (errorType error)
       (if isStructuredError this error then status_value error else JUndefined)"

text \<open>The response event of a single-shot call that settled with \<open>response\<close> after \<open>d\<close> ms.\<close>

definition success_event ::
  "LoggingContentGenerator \<Rightarrow> GenerateContentParameters \<Rightarrow> string \<Rightarrow> jsval \<Rightarrow> int \<Rightarrow> event" where
  "success_event this req pid response d =
     ApiResponseEvent
       (js_or (own_property response ''modelVersion'') (JStr (model req)))
       (JNum d)
       (JStr pid)
       (generation_params (js_or (own_property response ''modelVersion'') (JStr (model req)))
          (config req))
       (prompt_snapshot (JStr (serialize (JArr (toContents this (contents req)))))
          (JNum (int (length (serialize (JArr (toContents this (contents req))))))))
       (response_snapshot
          (opt_member (opt_index (own_property response ''candidates'') 0) ''finishReason'')
          (own_property response ''responseId'') (own_property response ''usageMetadata''))
       (authType this)
       (own_property response ''usageMetadata'')
       (JStr (serialize response))"

text \<open>
  What a stream has tracked after a list of chunks: the usage metadata and the finish
  reason of the latest chunk that has a truthy one, and the model of the first chunk or,
  failing that, the requested model.
\<close>

definition usage_of :: "jsval \<Rightarrow> jsval" where
  "usage_of response = own_property response ''usageMetadata''"

definition finish_reason_of :: "jsval \<Rightarrow> jsval" where
  "finish_reason_of response =
     opt_member (opt_index (own_property response ''candidates'') 0) ''finishReason''"

fun latest :: "(jsval \<Rightarrow> jsval) \<Rightarrow> jsval \<Rightarrow> jsval list \<Rightarrow> jsval" where
  "latest f v [] = v"
| "latest f v (c # cs) = latest f (if truthy (f c) then f c else v) cs"

definition first_model :: "jsval list \<Rightarrow> string \<Rightarrow> jsval" where
  "first_model chunks mdl =
     js_or (opt_member (opt_index (JArr chunks) 0) ''modelVersion'') (JStr mdl)"

text \<open>
  The response event that the stream wrapper hands to the sink when the stream completes
  after \<open>chunks\<close>, \<open>durationMs\<close> after the start. Its members are where the positional call
  of \<^verbatim>\<open>_logApiResponse\<close> puts them: the correlation id in the model position, the model in the
  duration position, the response id in the correlation position, the duration serialized
  as the prompt, the usage metadata as the response id, the serialized chunks as the usage
  metadata and the finish reason as the response text.
\<close>

definition completion_event ::
  "LoggingContentGenerator \<Rightarrow> jsval list \<Rightarrow> int \<Rightarrow> string \<Rightarrow> string \<Rightarrow> event" where
  "completion_event this chunks durationMs pid mdl =
     ApiResponseEvent
       (JStr pid)
       (first_model chunks mdl)
       (opt_member (opt_index (JArr chunks) 0) ''responseId'')
       (generation_params (JStr pid) JUndefined)
       (prompt_snapshot (JStr (dec_int durationMs)) (JNum (int (length (dec_int durationMs)))))
       (response_snapshot JUndefined (latest usage_of JUndefined chunks)
          (JStr (serialize (JArr chunks))))
       (authType this)
       (JStr (serialize (JArr chunks)))
       (latest finish_reason_of JUndefined chunks)"

section \<open>Concrete calls\<close>

text \<open>
  One conversation, one response, one stream of two chunks and one failure, with a backend
  that settles with them, for the inputs at which the theorems below are evaluated. The
  \<^verbatim>\<open>toContents\<close> used here returns the turns of a request whose contents already are an array
  of turns; the \<^verbatim>\<open>isStructuredError\<close> used here accepts error instances and objects.
\<close>

definition example_turns :: "Content list" where
  "example_turns =
     [\<lparr>role = Some ''user'',
       parts = Some [\<lparr>text = Some ''Hello'', functionCall = None, functionResponse = None,
                      other = []\<rparr>]\<rparr>]"

definition array_elements :: "jsval \<Rightarrow> jsval list" where
  "array_elements v = (case v of JArr xs \<Rightarrow> xs | _ \<Rightarrow> [v])"

fun accepts_objects :: "thrown \<Rightarrow> bool" where
  "accepts_objects (ErrorInstance n m s) = True"
| "accepts_objects (Thrown (JObj kvs)) = True"
| "accepts_objects (Thrown v) = False"

definition example_usage :: jsval where
  "example_usage =
     JObj [(''promptTokenCount'', JNum 7), (''candidatesTokenCount'', JNum 3),
           (''totalTokenCount'', JNum 10)]"

definition example_response :: jsval where
  "example_response =
     JObj [(''modelVersion'', JStr ''gemini-2.5-pro''), (''responseId'', JStr ''r-1''),
           (''candidates'', JArr [JObj [(''finishReason'', JStr ''STOP'')]]),
           (''usageMetadata'', example_usage)]"

definition example_chunks :: "(int \<times> jsval) list" where
  "example_chunks =
     [(200, JObj [(''modelVersion'', JStr ''gemini-2.5-pro''), (''responseId'', JStr ''r-1'')]),
      (300, JObj [(''candidates'', JArr [JObj [(''finishReason'', JStr ''STOP'')]]),
                  (''usageMetadata'', example_usage)])]"

definition example_error :: thrown where
  "example_error = ErrorInstance ''ApiError'' ''quota exceeded'' (JNum 429)"

definition example_generator :: "thrown + jsval \<Rightarrow> stream \<Rightarrow> LoggingContentGenerator" where
  "example_generator settled strm =
     \<lparr>wrapped =
        \<lparr>wrapped_generateContent = (\<lambda>req pid. (500, settled)),
         wrapped_generateContentStream = (\<lambda>req pid. (100, Inr strm)),
         wrapped_countTokens = (\<lambda>req. (10, Inr (JObj [(''totalTokens'', JNum 7)]))),
         wrapped_embedContent = (\<lambda>req. (10, Inl example_error))\<rparr>,
      authType = JStr ''oauth-personal'',
      toContents = array_elements,
      isStructuredError = accepts_objects\<rparr>"

definition example_request :: GenerateContentParameters where
  "example_request =
     \<lparr>model = ''gemini-pro'', contents = JArr (map js_of_Content example_turns),
      config = JUndefined\<rparr>"

definition example_world :: world where
  "example_world = \<lparr>now = 1000, trace = []\<rparr>"

text \<open>
  Two turns for the converter: one with a text, a text that is the empty string and a
  function call, and one without a segment list.
\<close>

definition mixed_turns :: "Content list" where
  "mixed_turns =
     [\<lparr>role = Some ''model'',
       parts = Some
         [\<lparr>text = Some ''a'', functionCall = None, functionResponse = None, other = []\<rparr>,
          \<lparr>text = Some '''', functionCall = None, functionResponse = None, other = []\<rparr>,
          \<lparr>text = None,
           functionCall = Some \<lparr>fc_name = Some ''f'', fc_id = Some ''1'', fc_args = UObj [(''a'', UNum 1)]\<rparr>,
           functionResponse = None, other = []\<rparr>]\<rparr>,
      \<lparr>role = Some ''user'', parts = None\<rparr>]"

section \<open>Lemmas\<close>

subsection \<open>The converter and its specification\<close>

lemma try_bind_Inr [simp]: "try_bind (Inr v) f = f v"
  by (simp add: try_bind_def)

lemma try_bind_Inl [simp]: "try_bind (Inl e) f = Inl e"
  by (simp add: try_bind_def)

lemma stringify_serializable:
  "serializable b \<Longrightarrow> JSON_stringify_unknown b = Inr (serialized b)"
  by (auto simp: serializable_def serialized_def JSON_stringify_unknown_def split: sum.splits)

lemma stringify_returns:
  "JSON_stringify_unknown b = Inr s \<Longrightarrow> serialized b = s"
  by (simp add: serialized_def)

lemma push_part_serializable:
  "serializable_part part \<Longrightarrow>
   push_part part ps = Inr (ps @ (case semantic_part part of None \<Rightarrow> [] | Some p \<Rightarrow> [p]))"
  by (cases "text part")
     (auto simp: push_part_def semantic_part_def has_text_def serializable_part_def
        stringify_serializable split: option.splits)

lemma push_part_returns:
  "push_part part ps = Inr ps' \<Longrightarrow>
   ps' = ps @ (case semantic_part part of None \<Rightarrow> [] | Some p \<Rightarrow> [p])"
  by (cases "text part")
     (auto simp: push_part_def semantic_part_def has_text_def try_bind_def serialized_def
        split: option.splits sum.splits if_splits)

lemma push_part_unrecognized: "\<not> recognized part \<Longrightarrow> push_part part ps = Inr ps"
  by (cases "text part") (auto simp: push_part_def recognized_def has_text_def)

lemma parts_loop_serializable:
  "list_all serializable_part segs \<Longrightarrow>
   parts_loop segs ps = Inr (ps @ List.map_filter semantic_part segs)"
  by (induction segs arbitrary: ps) (auto simp: push_part_serializable split: option.splits)

lemma parts_loop_returns:
  "parts_loop segs ps = Inr ps' \<Longrightarrow> ps' = ps @ List.map_filter semantic_part segs"
proof (induction segs arbitrary: ps)
  case Nil
  then show ?case by simp
next
  case (Cons part rest)
  from Cons.prems obtain ps1 where
    p: "push_part part ps = Inr ps1" and r: "parts_loop rest ps1 = Inr ps'"
    by (cases "push_part part ps") simp_all
  from push_part_returns[OF p] Cons.IH[OF r] show ?case
    by (simp split: option.splits)
qed

lemma parts_loop_filter: "parts_loop (filter recognized segs) ps = parts_loop segs ps"
  by (induction segs arbitrary: ps)
     (simp_all add: push_part_unrecognized try_bind_def split: sum.splits)

lemma push_message_serializable:
  "list_all serializable_part (segments content) \<Longrightarrow>
   push_message content ms = Inr (ms @ (case semantic_message content of None \<Rightarrow> [] | Some m \<Rightarrow> [m]))"
  by (simp add: push_message_def semantic_message_def segments_def parts_loop_serializable
      split: option.splits)

lemma push_message_returns:
  "push_message content ms = Inr ms' \<Longrightarrow>
   ms' = ms @ (case semantic_message content of None \<Rightarrow> [] | Some m \<Rightarrow> [m])"
  by (auto simp: push_message_def semantic_message_def try_bind_def
      split: option.splits sum.splits dest: parts_loop_returns)

lemma contents_loop_serializable:
  "serializable_turns turns \<Longrightarrow>
   contents_loop turns ms = Inr (ms @ List.map_filter semantic_message turns)"
  by (induction turns arbitrary: ms)
     (auto simp: serializable_turns_def push_message_serializable split: option.splits)

lemma contents_loop_returns:
  "contents_loop turns ms = Inr ms' \<Longrightarrow> ms' = ms @ List.map_filter semantic_message turns"
proof (induction turns arbitrary: ms)
  case Nil
  then show ?case by simp
next
  case (Cons content rest)
  from Cons.prems obtain ms1 where
    p: "push_message content ms = Inr ms1" and r: "contents_loop rest ms1 = Inr ms'"
    by (cases "push_message content ms") simp_all
  from push_message_returns[OF p] Cons.IH[OF r] show ?case
    by (simp split: option.splits)
qed

lemma toSemanticMessage_serializable:
  "serializable_turns turns \<Longrightarrow> toSemanticMessage turns = Inr (spec_toSemanticMessage turns)"
  by (simp add: toSemanticMessage_def spec_toSemanticMessage_def contents_loop_serializable)

lemma toSemanticMessage_returns:
  "toSemanticMessage turns = Inr messages \<Longrightarrow> messages = spec_toSemanticMessage turns"
  by (auto simp: toSemanticMessage_def spec_toSemanticMessage_def dest: contents_loop_returns)

lemma push_message_acc:
  "push_message content ms = try_bind (push_message content []) (\<lambda>r. Inr (ms @ r))"
  by (simp add: push_message_def try_bind_def split: option.splits sum.splits)

lemma contents_loop_acc:
  "contents_loop turns ms = try_bind (contents_loop turns []) (\<lambda>r. Inr (ms @ r))"
proof (induction turns arbitrary: ms)
  case Nil
  show ?case by simp
next
  case (Cons content rest)
  show ?case
  proof (cases "push_message content []")
    case (Inl e)
    then show ?thesis
      by (simp add: push_message_acc[of content ms])
  next
    case (Inr m1)
    have "contents_loop (content # rest) ms = contents_loop rest (ms @ m1)"
      by (simp add: push_message_acc[of content ms] Inr)
    also have "\<dots> = try_bind (contents_loop rest []) (\<lambda>r. Inr ((ms @ m1) @ r))"
      by (rule Cons.IH)
    finally show ?thesis
      using Inr Cons.IH[of m1]
      by (simp add: try_bind_def split: sum.splits)
  qed
qed

lemma contents_loop_append:
  "contents_loop (xs @ ys) ms = try_bind (contents_loop xs ms) (contents_loop ys)"
  by (induction xs arbitrary: ms) (simp_all add: try_bind_def split: sum.splits)

lemma toSemanticMessage_append:
  "toSemanticMessage (xs @ ys) =
     try_bind (toSemanticMessage xs) (\<lambda>a. try_bind (toSemanticMessage ys) (\<lambda>b. Inr (a @ b)))"
proof -
  have "toSemanticMessage (xs @ ys) = try_bind (contents_loop xs []) (contents_loop ys)"
    by (simp add: toSemanticMessage_def contents_loop_append)
  also have "\<dots> = try_bind (contents_loop xs [])
      (\<lambda>a. try_bind (contents_loop ys []) (\<lambda>b. Inr (a @ b)))"
  proof (cases "contents_loop xs []")
    case (Inl e)
    then show ?thesis
      by simp
  next
    case (Inr a)
    then show ?thesis
      by (simp add: contents_loop_acc[of ys a])
  qed
  finally show ?thesis
    by (simp add: toSemanticMessage_def)
qed

lemma toSemanticMessage_drop_unrecognized:
  "toSemanticMessage (map drop_unrecognized turns) = toSemanticMessage turns"
proof -
  have m: "push_message (drop_unrecognized content) ms = push_message content ms" for content ms
    by (simp add: push_message_def drop_unrecognized_def parts_loop_filter split: option.splits)
  have "contents_loop (map drop_unrecognized turns) ms = contents_loop turns ms" for ms
    by (induction turns arbitrary: ms) (simp_all add: m try_bind_def split: sum.splits)
  then show ?thesis
    by (simp add: toSemanticMessage_def)
qed

lemma semantic_part_recognized: "(semantic_part part \<noteq> None) = recognized part"
  by (cases "text part")
     (auto simp: semantic_part_def recognized_def has_text_def split: option.splits)

lemma length_semantic_parts:
  "length (List.map_filter semantic_part segs) = length (filter recognized segs)"
  by (induction segs) (auto simp: semantic_part_recognized[symmetric] split: option.splits)

lemma spec_roles: "map msg_role (spec_toSemanticMessage turns) = map role (filter has_parts turns)"
  by (induction turns)
     (auto simp: spec_toSemanticMessage_def semantic_message_def has_parts_def split: option.splits)

lemma spec_parts:
  "map msg_parts (spec_toSemanticMessage turns)
     = map (\<lambda>c. List.map_filter semantic_part (segments c)) (filter has_parts turns)"
  by (induction turns)
     (auto simp: spec_toSemanticMessage_def semantic_message_def has_parts_def segments_def
        split: option.splits)

lemma spec_part_counts:
  "map (\<lambda>m. length (msg_parts m)) (spec_toSemanticMessage turns)
     = map (\<lambda>c. length (filter recognized (segments c))) (filter has_parts turns)"
  by (induction turns)
     (auto simp: spec_toSemanticMessage_def semantic_message_def has_parts_def segments_def
        length_semantic_parts split: option.splits)

lemma spec_length: "length (spec_toSemanticMessage turns) = length (filter has_parts turns)"
  using spec_roles[of turns] by (metis length_map)

lemma semantic_parts_of_recognized:
  "List.map_filter semantic_part (filter recognized segs) = List.map_filter semantic_part segs"
  by (induction segs) (auto simp: semantic_part_recognized[symmetric] split: option.splits)



subsection \<open>Observations\<close>

lemma emitted_append: "emitted (xs @ ys) = emitted xs @ emitted ys"
  by (induction xs rule: emitted.induct) simp_all

lemma forwarded_append: "forwarded (xs @ ys) = forwarded xs @ forwarded ys"
  by (induction xs rule: forwarded.induct) simp_all

lemma emitted_Forwarded: "emitted (map (\<lambda>c. Forwarded (snd c)) chunks) = []"
  by (induction chunks) simp_all

lemma forwarded_Forwarded: "forwarded (map (\<lambda>c. Forwarded (snd c)) chunks) = map snd chunks"
  by (induction chunks) simp_all

subsection \<open>The logging methods\<close>

lemma member_ok: "\<not> nullish v \<Longrightarrow> member v k = Inr (own_property v k)"
  by (simp add: member_def)

lemma logApiRequest_eq:
  "logApiRequest this (JArr (toContents this (contents req))) (JStr (model req)) (JStr pid) w =
   emit (request_event this req pid) w"
  by (simp add: logApiRequest_def request_event_def JSON_stringify_def)

lemma logApiResponse_ok:
  "cts \<noteq> JUndefined \<Longrightarrow>
   priv_logApiResponse this cts dur mdl pid rid um rt fr gc w =
     Inr (emit (ApiResponseEvent mdl dur pid (generation_params mdl gc)
            (prompt_snapshot (JStr (serialize cts)) (JNum (int (length (serialize cts)))))
            (response_snapshot fr rid um) (authType this) um rt) w)"
  by (simp add: priv_logApiResponse_def JSON_stringify_def try_bind_def member_def nullish_def)

lemma status_of_ok:
  "\<not> (error = Thrown JUndefined \<or> error = Thrown JNull) \<Longrightarrow>
   status_of error = Inr (status_value error)"
  by (cases error) (auto simp: member_def nullish_def)

lemma logApiError_ok:
  "status_readable this error \<Longrightarrow>
   priv_logApiError this dur error mdl pid w = Inr (emit (error_event this dur error mdl pid) w)"
  by (auto simp add: priv_logApiError_def try_bind_def status_readable_def error_event_def
      status_of_ok)

lemma logApiError_trace:
  assumes "priv_logApiError this dur error mdl pid w = Inr w'"
  shows "\<exists>ev. is_error ev \<and> w' = emit ev w"
proof -
  from assms obtain status where
    "w' = emit (ApiErrorEvent mdl (errorMessage error) dur pid (authType this) (errorType error)
                  status) w"
    by (auto simp add: priv_logApiError_def try_bind_def split: sum.splits if_splits)
  then show ?thesis
    using is_error.simps(1) by blast
qed

lemma log_and_rethrow_ok:
  "status_readable this error \<Longrightarrow>
   log_and_rethrow this dur error mdl pid w = (error, emit (error_event this dur error mdl pid) w)"
  by (simp add: log_and_rethrow_def logApiError_ok)

lemma log_and_rethrow_trace:
  "log_and_rethrow this dur error mdl pid w = (e, w') \<Longrightarrow> \<exists>rest. trace w' = trace w @ rest"
  by (auto simp: log_and_rethrow_def emit_def split: sum.splits dest!: logApiError_trace)

subsection \<open>Single-shot generation\<close>

lemma generateContent_success:
  assumes "wrapped_generateContent (wrapped this) req pid = (d, Inr response)"
    and "\<not> nullish response"
  shows "generateContent this req pid w =
           (Inr response,
            emit (success_event this req pid response d)
              (await (GenerateContent req pid) d (emit (request_event this req pid) w)))"
proof -
  have ne: "response \<noteq> JUndefined"
    using assms(2) by (auto simp: nullish_def)
  show ?thesis
    using assms ne
    by (simp add: generateContent_def logApiRequest_eq member_ok try_bind_def logApiResponse_ok
        success_event_def JSON_stringify_def await_def emit_def)
qed

lemma generateContent_failure:
  assumes "wrapped_generateContent (wrapped this) req pid = (d, Inl error)"
    and "status_readable this error"
  shows "generateContent this req pid w =
           (Inl error,
            emit (error_event this (JNum d) error (JStr (model req)) (JStr pid))
              (await (GenerateContent req pid) d (emit (request_event this req pid) w)))"
  using assms
  by (simp add: generateContent_def logApiRequest_eq log_and_rethrow_ok await_def emit_def)

lemma generateContent_prefix:
  "\<exists>rest. trace (snd (generateContent this req pid w)) =
     trace w @ [Emitted (request_event this req pid), Invoked (GenerateContent req pid)] @ rest"
proof -
  obtain d settled where b: "wrapped_generateContent (wrapped this) req pid = (d, settled)"
    by (cases "wrapped_generateContent (wrapped this) req pid")
  let ?w2 = "await (GenerateContent req pid) d (emit (request_event this req pid) w)"
  let ?dur = "JNum (now ?w2 - now w)"
  have w2: "trace ?w2 =
      trace w @ [Emitted (request_event this req pid), Invoked (GenerateContent req pid)]"
    by (simp add: await_def emit_def)
  have "\<exists>rest. trace (snd (generateContent this req pid w)) = trace ?w2 @ rest"
  proof (cases settled)
    case (Inl error)
    obtain e w3 where
      l: "log_and_rethrow this ?dur error (JStr (model req)) (JStr pid) ?w2 = (e, w3)"
      by (cases "log_and_rethrow this ?dur error (JStr (model req)) (JStr pid) ?w2")
    from log_and_rethrow_trace[OF l] obtain rest where "trace w3 = trace ?w2 @ rest"
      by blast
    moreover have "snd (generateContent this req pid w) = w3"
      using b Inl l by (simp add: generateContent_def logApiRequest_eq)
    ultimately show ?thesis
      by auto
  next
    case (Inr response)
    show ?thesis
    proof (cases "nullish response")
      case False
      from generateContent_success[OF b[unfolded Inr] False, of w] show ?thesis
        by (simp add: emit_def)
    next
      case True
      let ?err = "TypeError (''Cannot read properties of '' @ js_String response)"
      obtain e w3 where
        l: "log_and_rethrow this ?dur ?err (JStr (model req)) (JStr pid) ?w2 = (e, w3)"
        by (cases "log_and_rethrow this ?dur ?err (JStr (model req)) (JStr pid) ?w2")
      from log_and_rethrow_trace[OF l] obtain rest where "trace w3 = trace ?w2 @ rest"
        by blast
      moreover have "snd (generateContent this req pid w) = w3"
        using b Inr True l
        by (simp add: generateContent_def logApiRequest_eq member_def try_bind_def)
      ultimately show ?thesis
        by auto
    qed
  qed
  with w2 show ?thesis
    by auto
qed

subsection \<open>Streaming generation\<close>

lemma generateContentStream_prefix:
  "\<exists>rest. trace (snd (generateContentStream this req pid w)) =
     trace w @ [Emitted (request_event this req pid), Invoked (GenerateContentStream req pid)]
       @ rest"
proof -
  obtain d settled where b: "wrapped_generateContentStream (wrapped this) req pid = (d, settled)"
    by (cases "wrapped_generateContentStream (wrapped this) req pid")
  let ?w2 = "await (GenerateContentStream req pid) d (emit (request_event this req pid) w)"
  let ?dur = "JNum (now ?w2 - now w)"
  have w2: "trace ?w2 =
      trace w @ [Emitted (request_event this req pid), Invoked (GenerateContentStream req pid)]"
    by (simp add: await_def emit_def)
  have "\<exists>rest. trace (snd (generateContentStream this req pid w)) = trace ?w2 @ rest"
  proof (cases settled)
    case (Inl error)
    obtain e w3 where
      l: "log_and_rethrow this ?dur error (JStr (model req)) (JStr pid) ?w2 = (e, w3)"
      by (cases "log_and_rethrow this ?dur error (JStr (model req)) (JStr pid) ?w2")
    from log_and_rethrow_trace[OF l] obtain rest where "trace w3 = trace ?w2 @ rest"
      by blast
    moreover have "snd (generateContentStream this req pid w) = w3"
      using b Inl l by (simp add: generateContentStream_def logApiRequest_eq)
    ultimately show ?thesis
      by auto
  next
    case (Inr strm)
    then show ?thesis
      using b by (simp add: generateContentStream_def logApiRequest_eq)
  qed
  with w2 show ?thesis
    by auto
qed

lemma generateContentStream_started:
  assumes "wrapped_generateContentStream (wrapped this) req pid = (d0, Inr strm)"
  shows "consume (generateContentStream this req pid w) =
           loggingStreamWrapper this strm (now w) pid (model req)
             (await (GenerateContentStream req pid) d0 (emit (request_event this req pid) w))"
  using assms by (simp add: consume_def generateContentStream_def logApiRequest_eq)

lemma for_await_yielding:
  "list_all (\<lambda>c. \<not> nullish (snd c)) chunks \<Longrightarrow>
   \<exists>w'. for_await (yielding chunks s) acc w =
       for_await s
         \<lparr>responses = responses acc @ map snd chunks,
          lastUsageMetadata = latest usage_of (lastUsageMetadata acc) (map snd chunks),
          finishReason = latest finish_reason_of (finishReason acc) (map snd chunks)\<rparr> w'
     \<and> trace w' = trace w @ map (\<lambda>c. Forwarded (snd c)) chunks
     \<and> now w' = now w + sum_list (map fst chunks)"
proof (induction chunks arbitrary: acc w)
  case Nil
  show ?case
    by (cases acc) (simp add: exI[of _ w])
next
  case (Cons c cs)
  obtain d r where c: "c = (d, r)"
    by (cases c)
  from Cons.prems c have r: "\<not> nullish r" and cs: "list_all (\<lambda>c. \<not> nullish (snd c)) cs"
    by simp_all
  let ?acc3 = "\<lparr>responses = responses acc @ [r],
     lastUsageMetadata = (if truthy (usage_of r) then usage_of r else lastUsageMetadata acc),
     finishReason =
       (if truthy (finish_reason_of r) then finish_reason_of r else finishReason acc)\<rparr>"
  have step: "for_await (yielding (c # cs) s) acc w =
      for_await (yielding cs s) ?acc3 (forward r (tick d w))"
    using r by (cases acc) (simp add: c member_ok Let_def usage_of_def finish_reason_of_def)
  from Cons.IH[OF cs, of ?acc3 "forward r (tick d w)"] obtain w' where
    ih: "for_await (yielding cs s) ?acc3 (forward r (tick d w)) =
           for_await s \<lparr>responses = responses ?acc3 @ map snd cs,
             lastUsageMetadata = latest usage_of (lastUsageMetadata ?acc3) (map snd cs),
             finishReason = latest finish_reason_of (finishReason ?acc3) (map snd cs)\<rparr> w'"
        "trace w' = trace (forward r (tick d w)) @ map (\<lambda>c. Forwarded (snd c)) cs"
        "now w' = now (forward r (tick d w)) + sum_list (map fst cs)"
    by blast
  from ih step show ?case
    by (intro exI[of _ w']) (simp add: c forward_def tick_def)
qed

lemma wrapper_failure:
  assumes "list_all (\<lambda>c. \<not> nullish (snd c)) chunks" and "status_readable this error"
  shows "\<exists>w'. loggingStreamWrapper this (yielding chunks (Throw d error)) startTime pid mdl w
                 = (Some error, w')
      \<and> trace w' = trace w @ map (\<lambda>c. Forwarded (snd c)) chunks
           @ [Emitted (error_event this
                (JNum (now w + sum_list (map fst chunks) + d - startTime)) error
                (first_model (map snd chunks) mdl) (JStr pid))]"
proof -
  let ?acc0 = "\<lparr>responses = [], lastUsageMetadata = JUndefined, finishReason = JUndefined\<rparr>"
  from for_await_yielding[OF assms(1), of "Throw d error" ?acc0 w] obtain w1 where
    f: "for_await (yielding chunks (Throw d error)) ?acc0 w =
          for_await (Throw d error)
            \<lparr>responses = responses ?acc0 @ map snd chunks,
             lastUsageMetadata = latest usage_of (lastUsageMetadata ?acc0) (map snd chunks),
             finishReason = latest finish_reason_of (finishReason ?acc0) (map snd chunks)\<rparr> w1"
    and t: "trace w1 = trace w @ map (\<lambda>c. Forwarded (snd c)) chunks"
    and n: "now w1 = now w + sum_list (map fst chunks)"
    by blast
  show ?thesis
    using f t n assms(2)
    by (simp add: loggingStreamWrapper_def log_and_rethrow_ok first_model_def emit_def tick_def)
qed

lemma wrapper_completion:
  assumes "list_all (\<lambda>c. \<not> nullish (snd c)) chunks"
  shows "\<exists>w'. loggingStreamWrapper this (yielding chunks (Return d)) startTime pid mdl w
                 = (None, w')
      \<and> trace w' = trace w @ map (\<lambda>c. Forwarded (snd c)) chunks
           @ [Emitted (completion_event this (map snd chunks)
                (now w + sum_list (map fst chunks) + d - startTime) pid mdl)]"
proof -
  let ?acc0 = "\<lparr>responses = [], lastUsageMetadata = JUndefined, finishReason = JUndefined\<rparr>"
  from for_await_yielding[OF assms(1), of "Return d" ?acc0 w] obtain w1 where
    f: "for_await (yielding chunks (Return d)) ?acc0 w =
          for_await (Return d)
            \<lparr>responses = responses ?acc0 @ map snd chunks,
             lastUsageMetadata = latest usage_of (lastUsageMetadata ?acc0) (map snd chunks),
             finishReason = latest finish_reason_of (finishReason ?acc0) (map snd chunks)\<rparr> w1"
    and t: "trace w1 = trace w @ map (\<lambda>c. Forwarded (snd c)) chunks"
    and n: "now w1 = now w + sum_list (map fst chunks)"
    by blast
  show ?thesis
    using f t n
    by (simp add: loggingStreamWrapper_def logApiResponse_ok first_model_def emit_def tick_def
        completion_event_def JSON_stringify_def Let_def)
qed

lemmas example_defs = example_generator_def example_request_def example_world_def
  example_chunks_def example_response_def example_usage_def example_error_def example_turns_def

section \<open>The claims\<close>

text \<open>
  Claim C1, at a concrete call. A stream of two chunks completes normally: the first chunk
  carries the model version \<^verbatim>\<open>gemini-2.5-pro\<close> and the response id \<^verbatim>\<open>r-1\<close>, the second the
  finish reason \<^verbatim>\<open>STOP\<close> and the usage metadata; the request names the model \<^verbatim>\<open>gemini-pro\<close>,
  the correlation id is \<^verbatim>\<open>prompt-1\<close>, and the stream completes 650 ms after the start. The
  wrapper forwards both chunks and then emits exactly one response event, but the members
  of that event are one position off: its model identifier is the correlation id, its
  duration is the model version, its correlation id is the response id, its prompt is the
  serialized duration, its response id (in the response snapshot) is the usage metadata,
  its usage metadata is the serialized chunk list, its response text is the finish reason,
  and its finish reason is \<^verbatim>\<open>undefined\<close>. The call of \<^verbatim>\<open>_logApiResponse\<close> in
  \<^verbatim>\<open>loggingStreamWrapper\<close> leaves out the leading \<^verbatim>\<open>contents\<close> argument that the call in
  \<^verbatim>\<open>generateContent\<close> passes.
\<close>

theorem stream_completion_event_is_shifted:
  "fst (consume (generateContentStream
          (example_generator (Inl example_error) (yielding example_chunks (Return 50)))
          example_request ''prompt-1'' example_world)) = None
   \<and> trace (snd (consume (generateContentStream
          (example_generator (Inl example_error) (yielding example_chunks (Return 50)))
          example_request ''prompt-1'' example_world)))
       = [Emitted (request_event
            (example_generator (Inl example_error) (yielding example_chunks (Return 50)))
            example_request ''prompt-1''),
          Invoked (GenerateContentStream example_request ''prompt-1''),
          Forwarded (snd (example_chunks ! 0)),
          Forwarded (snd (example_chunks ! 1)),
          Emitted
            (ApiResponseEvent
               (JStr ''prompt-1'')
               (JStr ''gemini-2.5-pro'')
               (JStr ''r-1'')
               (generation_params (JStr ''prompt-1'') JUndefined)
               (prompt_snapshot (JStr ''650'') (JNum 3))
               (response_snapshot JUndefined example_usage
                  (JStr (serialize (JArr (map snd example_chunks)))))
               (JStr ''oauth-personal'')
               (JStr (serialize (JArr (map snd example_chunks))))
               (JStr ''STOP''))]"
proof -
  let ?G = "example_generator (Inl example_error) (yielding example_chunks (Return 50))"
  have b: "wrapped_generateContentStream (wrapped ?G) example_request ''prompt-1''
            = (100, Inr (yielding example_chunks (Return 50)))"
    by (simp add: example_generator_def)
  have c: "list_all (\<lambda>c. \<not> nullish (snd c)) example_chunks"
    by (simp add: example_chunks_def nullish_def)
  let ?w2 = "await (GenerateContentStream example_request ''prompt-1'') 100
               (emit (request_event ?G example_request ''prompt-1'') example_world)"
  from wrapper_completion[OF c, of ?G 50 "now example_world" "''prompt-1''" "model example_request" ?w2]
  obtain w' where
    r: "loggingStreamWrapper ?G (yielding example_chunks (Return 50)) (now example_world)
          ''prompt-1'' (model example_request) ?w2 = (None, w')"
    and t: "trace w' = trace ?w2 @ map (\<lambda>c. Forwarded (snd c)) example_chunks
           @ [Emitted (completion_event ?G (map snd example_chunks)
                (now ?w2 + sum_list (map fst example_chunks) + 50 - now example_world)
                ''prompt-1'' (model example_request))]"
    by blast
  have ev: "completion_event ?G (map snd example_chunks)
                (now ?w2 + sum_list (map fst example_chunks) + 50 - now example_world)
                ''prompt-1'' (model example_request)
        = ApiResponseEvent
               (JStr ''prompt-1'')
               (JStr ''gemini-2.5-pro'')
               (JStr ''r-1'')
               (generation_params (JStr ''prompt-1'') JUndefined)
               (prompt_snapshot (JStr ''650'') (JNum 3))
               (response_snapshot JUndefined example_usage
                  (JStr (serialize (JArr (map snd example_chunks)))))
               (JStr ''oauth-personal'')
               (JStr (serialize (JArr (map snd example_chunks))))
               (JStr ''STOP'')"
    by (simp add: completion_event_def first_model_def opt_index_def opt_member_def nullish_def
        js_or_def usage_of_def finish_reason_of_def await_def emit_def dec_int_def
        dec_nat.simps[of 650] dec_nat.simps[of 65] dec_nat.simps[of 6] digit_char_def
        example_defs)
  from generateContentStream_started[OF b, of example_world] r
  have "consume (generateContentStream ?G example_request ''prompt-1'' example_world) = (None, w')"
    by simp
  with t ev show ?thesis
    by (simp add: await_def emit_def example_world_def example_chunks_def)
qed

text \<open>
  Claim C2, as the code has it. For every single-shot and every streaming call, whatever the
  backend then does, the first two observations are the request event and the call of the
  backend, in that order; the request event holds the requested model, the correlation id
  and the serialization of the request contents as \<^verbatim>\<open>toContents\<close> returns them, and the
  backend is called with the request as the caller gave it. The contents are not passed
  through \<^verbatim>\<open>toSemanticMessage\<close>.
\<close>

theorem request_event_serializes_toContents:
  "(\<exists>rest. trace (snd (generateContent this req pid w)) =
       trace w
       @ [Emitted (ApiRequestEvent (JStr (model req)) (JStr pid)
                     (JStr (serialize (JArr (toContents this (contents req)))))),
          Invoked (GenerateContent req pid)]
       @ rest)
   \<and> (\<exists>rest. trace (snd (generateContentStream this req pid w)) =
       trace w
       @ [Emitted (ApiRequestEvent (JStr (model req)) (JStr pid)
                     (JStr (serialize (JArr (toContents this (contents req)))))),
          Invoked (GenerateContentStream req pid)]
       @ rest)
   \<and> JSON_stringify (JArr (toContents this (contents req)))
       = Some (serialize (JArr (toContents this (contents req))))"
  using generateContent_prefix[of this req pid w] generateContentStream_prefix[of this req pid w]
  by (simp add: request_event_def JSON_stringify_def)

text \<open>
  The request of one user turn with the text \<^verbatim>\<open>Hello\<close>: the request event holds the turn as it
  is, with a \<^verbatim>\<open>text\<close> member, where the semantic converter would have produced a part with
  \<^verbatim>\<open>type\<close> and \<^verbatim>\<open>content\<close>.
\<close>

theorem request_text_is_not_semantic_counterexample:
  "contents example_request = JArr (map js_of_Content example_turns)
   \<and> toContents (example_generator (Inr example_response) (Return 0)) (contents example_request)
       = map js_of_Content example_turns
   \<and> hd (emitted (trace (snd (generateContent
          (example_generator (Inr example_response) (Return 0))
          example_request ''prompt-1'' example_world))))
       = ApiRequestEvent (JStr ''gemini-pro'') (JStr ''prompt-1'')
           (JStr ''[{\"role\":\"user\",\"parts\":[{\"text\":\"Hello\"}]}]'')
   \<and> semantic_request_text example_turns
       = Inr (Some ''[{\"role\":\"user\",\"parts\":[{\"type\":\"text\",\"content\":\"Hello\"}]}]'')
   \<and> hd (emitted (trace (snd (generateContent
          (example_generator (Inr example_response) (Return 0))
          example_request ''prompt-1'' example_world))))
       \<noteq> ApiRequestEvent (JStr ''gemini-pro'') (JStr ''prompt-1'')
           (JStr ''[{\"role\":\"user\",\"parts\":[{\"type\":\"text\",\"content\":\"Hello\"}]}]'')"
  by code_simp

text \<open>
  Claim C3, as the code has it. For every segment whose only populated member is a text that
  is not the empty string, the converter appends exactly one part, of type \<^verbatim>\<open>text\<close>, whose
  content is that string; a turn made of that one segment becomes a message with that one
  part.
\<close>

theorem text_only_segment_yields_text_part:
  assumes "text part = Some t" and "t \<noteq> []"
    and "functionCall part = None" and "functionResponse part = None"
  shows "push_part part ps = Inr (ps @ [TextPart t])
       \<and> part_type (TextPart t) = ''text''
       \<and> toSemanticMessage [\<lparr>role = r, parts = Some [part]\<rparr>]
           = Inr [\<lparr>msg_role = r, msg_parts = [TextPart t]\<rparr>]"
  using assms by (simp add: push_part_def toSemanticMessage_def push_message_def)

theorem text_only_segment_witness:
  "push_part \<lparr>text = Some ''Hello'', functionCall = None, functionResponse = None, other = []\<rparr> []
     = Inr [TextPart ''Hello'']
   \<and> toSemanticMessage example_turns
       = Inr [\<lparr>msg_role = Some ''user'', msg_parts = [TextPart ''Hello'']\<rparr>]"
  using text_only_segment_yields_text_part
          [of "\<lparr>text = Some ''Hello'', functionCall = None, functionResponse = None, other = []\<rparr>"
              "''Hello''" "[]" "Some ''user''"]
  by (simp add: example_turns_def)

text \<open>
  A segment whose text is the empty string is falsy for \<^verbatim>\<open>if (part.text)\<close>: the converter
  appends nothing for it.
\<close>

theorem empty_text_only_segment_counterexample:
  "toSemanticMessage
     [\<lparr>role = Some ''user'',
       parts = Some [\<lparr>text = Some '''', functionCall = None, functionResponse = None, other = []\<rparr>]\<rparr>]
     = Inr [\<lparr>msg_role = Some ''user'', msg_parts = []\<rparr>]
   \<and> toSemanticMessage
     [\<lparr>role = Some ''user'',
       parts = Some [\<lparr>text = Some '''', functionCall = None, functionResponse = None, other = []\<rparr>]\<rparr>]
     \<noteq> Inr [\<lparr>msg_role = Some ''user'', msg_parts = [TextPart '''']\<rparr>]"
  by (simp add: push_part_def toSemanticMessage_def push_message_def)

text \<open>
  Claim C4. For every single-shot call: when the backend settles with a response, the call
  returns that response unchanged, and what is observed is the request event, the call of
  the backend and one response event carrying the correlation id, in that order, so that
  exactly one request event and one response event and no error event reach the sink; when
  the backend fails, the call fails with the same failure, and what is observed is the
  request event, the call of the backend and one error event, with no response event. The
  response is an object (not \<^verbatim>\<open>undefined\<close> or \<^verbatim>\<open>null\<close>), and \<^verbatim>\<open>isStructuredError\<close> does not accept
  a thrown \<^verbatim>\<open>undefined\<close> or \<^verbatim>\<open>null\<close>.
\<close>

theorem generateContent_events:
  "(wrapped_generateContent (wrapped this) req pid = (d, Inr response) \<and> \<not> nullish response \<longrightarrow>
      fst (generateContent this req pid w) = Inr response
      \<and> trace (snd (generateContent this req pid w)) =
          trace w @ [Emitted (request_event this req pid), Invoked (GenerateContent req pid),
                     Emitted (success_event this req pid response d)]
      \<and> emitted (trace (snd (generateContent this req pid w))) =
          emitted (trace w) @ [request_event this req pid, success_event this req pid response d])
   \<and> (wrapped_generateContent (wrapped this) req pid = (d, Inl error) \<and> status_readable this error \<longrightarrow>
      fst (generateContent this req pid w) = Inl error
      \<and> trace (snd (generateContent this req pid w)) =
          trace w @ [Emitted (request_event this req pid), Invoked (GenerateContent req pid),
                     Emitted (error_event this (JNum d) error (JStr (model req)) (JStr pid))]
      \<and> emitted (trace (snd (generateContent this req pid w))) =
          emitted (trace w)
          @ [request_event this req pid,
             error_event this (JNum d) error (JStr (model req)) (JStr pid)])
   \<and> is_request (request_event this req pid)
   \<and> is_response (success_event this req pid response d)
   \<and> \<not> is_error (success_event this req pid response d)
   \<and> response_prompt_id (success_event this req pid response d) = JStr pid
   \<and> is_error (error_event this (JNum d) error (JStr (model req)) (JStr pid))
   \<and> \<not> is_response (error_event this (JNum d) error (JStr (model req)) (JStr pid))"
proof -
  have ok: "wrapped_generateContent (wrapped this) req pid = (d, Inr response) \<and> \<not> nullish response \<longrightarrow>
      fst (generateContent this req pid w) = Inr response
      \<and> trace (snd (generateContent this req pid w)) =
          trace w @ [Emitted (request_event this req pid), Invoked (GenerateContent req pid),
                     Emitted (success_event this req pid response d)]
      \<and> emitted (trace (snd (generateContent this req pid w))) =
          emitted (trace w) @ [request_event this req pid, success_event this req pid response d]"
    by (auto simp: generateContent_success emit_def await_def emitted_append)
  have bad: "wrapped_generateContent (wrapped this) req pid = (d, Inl error) \<and> status_readable this error \<longrightarrow>
      fst (generateContent this req pid w) = Inl error
      \<and> trace (snd (generateContent this req pid w)) =
          trace w @ [Emitted (request_event this req pid), Invoked (GenerateContent req pid),
                     Emitted (error_event this (JNum d) error (JStr (model req)) (JStr pid))]
      \<and> emitted (trace (snd (generateContent this req pid w))) =
          emitted (trace w)
          @ [request_event this req pid,
             error_event this (JNum d) error (JStr (model req)) (JStr pid)]"
    by (auto simp: generateContent_failure emit_def await_def emitted_append)
  have kinds: "is_request (request_event this req pid)
   \<and> is_response (success_event this req pid response d)
   \<and> \<not> is_error (success_event this req pid response d)
   \<and> response_prompt_id (success_event this req pid response d) = JStr pid
   \<and> is_error (error_event this (JNum d) error (JStr (model req)) (JStr pid))
   \<and> \<not> is_response (error_event this (JNum d) error (JStr (model req)) (JStr pid))"
    by (simp add: request_event_def success_event_def error_event_def)
  from ok bad kinds show ?thesis
    by blast
qed

theorem generateContent_events_witness:
  "fst (generateContent (example_generator (Inr example_response) (Return 0)) example_request
          ''prompt-1'' example_world) = Inr example_response
   \<and> emitted (trace (snd (generateContent (example_generator (Inr example_response) (Return 0))
          example_request ''prompt-1'' example_world)))
       = [request_event (example_generator (Inr example_response) (Return 0)) example_request
            ''prompt-1'',
          success_event (example_generator (Inr example_response) (Return 0)) example_request
            ''prompt-1'' example_response 500]
   \<and> fst (generateContent (example_generator (Inl example_error) (Return 0)) example_request
          ''prompt-1'' example_world) = Inl example_error
   \<and> emitted (trace (snd (generateContent (example_generator (Inl example_error) (Return 0))
          example_request ''prompt-1'' example_world)))
       = [request_event (example_generator (Inl example_error) (Return 0)) example_request
            ''prompt-1'',
          error_event (example_generator (Inl example_error) (Return 0)) (JNum 500)
            example_error (JStr ''gemini-pro'') (JStr ''prompt-1'')]"
proof -
  let ?G = "example_generator (Inr example_response) (Return 0)"
  let ?H = "example_generator (Inl example_error) (Return 0)"
  have g: "wrapped_generateContent (wrapped ?G) example_request ''prompt-1''
             = (500, Inr example_response) \<and> \<not> nullish example_response"
    by (simp add: example_generator_def example_response_def nullish_def)
  have h: "wrapped_generateContent (wrapped ?H) example_request ''prompt-1''
             = (500, Inl example_error) \<and> status_readable ?H example_error"
    by (simp add: example_generator_def example_error_def status_readable_def)
  show ?thesis
    using g h
      generateContent_events[of ?G example_request "''prompt-1''" 500 example_response
        example_world example_error]
      generateContent_events[of ?H example_request "''prompt-1''" 500 example_response
        example_world example_error]
    by (simp add: example_world_def example_request_def)
qed

text \<open>
  Claim C5. For every streaming call whose backend stream yields the chunks \<open>chunks\<close> and
  then fails with \<open>error\<close>: the consumer receives exactly those chunks, in order, before the
  failure; the wrapper raises \<open>error\<close> itself to its consumer; and the sink receives, after the
  request event, exactly one error event (with the model of the first chunk, or the
  requested model when it has none) and no response event. The chunks are objects, and
  \<^verbatim>\<open>isStructuredError\<close> does not accept a thrown \<^verbatim>\<open>undefined\<close> or \<^verbatim>\<open>null\<close>.
\<close>

theorem stream_failure_after_k_chunks:
  assumes "wrapped_generateContentStream (wrapped this) req pid
             = (d0, Inr (yielding chunks (Throw d error)))"
    and "list_all (\<lambda>c. \<not> nullish (snd c)) chunks"
    and "status_readable this error"
  shows "fst (consume (generateContentStream this req pid w)) = Some error
     \<and> trace (snd (consume (generateContentStream this req pid w))) =
         trace w
         @ [Emitted (request_event this req pid), Invoked (GenerateContentStream req pid)]
         @ map (\<lambda>c. Forwarded (snd c)) chunks
         @ [Emitted (error_event this (JNum (d0 + sum_list (map fst chunks) + d)) error
                       (first_model (map snd chunks) (model req)) (JStr pid))]
     \<and> forwarded (trace (snd (consume (generateContentStream this req pid w)))) =
         forwarded (trace w) @ map snd chunks
     \<and> emitted (trace (snd (consume (generateContentStream this req pid w)))) =
         emitted (trace w)
         @ [request_event this req pid,
            error_event this (JNum (d0 + sum_list (map fst chunks) + d)) error
              (first_model (map snd chunks) (model req)) (JStr pid)]
     \<and> is_error (error_event this (JNum (d0 + sum_list (map fst chunks) + d)) error
              (first_model (map snd chunks) (model req)) (JStr pid))
     \<and> \<not> is_response (error_event this (JNum (d0 + sum_list (map fst chunks) + d)) error
              (first_model (map snd chunks) (model req)) (JStr pid))
     \<and> \<not> is_response (request_event this req pid)"
proof -
  let ?w2 = "await (GenerateContentStream req pid) d0 (emit (request_event this req pid) w)"
  let ?ev = "error_event this (JNum (d0 + sum_list (map fst chunks) + d)) error
              (first_model (map snd chunks) (model req)) (JStr pid)"
  from wrapper_failure[OF assms(2,3), of d "now w" pid "model req" ?w2] obtain w' where
    r: "loggingStreamWrapper this (yielding chunks (Throw d error)) (now w) pid (model req) ?w2
          = (Some error, w')"
    and t: "trace w' = trace ?w2 @ map (\<lambda>c. Forwarded (snd c)) chunks
           @ [Emitted (error_event this
                (JNum (now ?w2 + sum_list (map fst chunks) + d - now w)) error
                (first_model (map snd chunks) (model req)) (JStr pid))]"
    by blast
  have dur: "now ?w2 + sum_list (map fst chunks) + d - now w = d0 + sum_list (map fst chunks) + d"
    by (simp add: await_def emit_def)
  have c: "consume (generateContentStream this req pid w) = (Some error, w')"
    using generateContentStream_started[OF assms(1), of w] r by simp
  from t have t': "trace w' = trace ?w2 @ map (\<lambda>c. Forwarded (snd c)) chunks @ [Emitted ?ev]"
    unfolding dur .
  have tr: "trace w' = trace w
         @ [Emitted (request_event this req pid), Invoked (GenerateContentStream req pid)]
         @ map (\<lambda>c. Forwarded (snd c)) chunks @ [Emitted ?ev]"
    using t' by (simp add: await_def emit_def)
  have kinds: "is_error ?ev \<and> \<not> is_response ?ev \<and> \<not> is_response (request_event this req pid)"
    by (simp add: error_event_def request_event_def)
  show ?thesis
    using c tr kinds
    by (simp add: emitted_append forwarded_append emitted_Forwarded forwarded_Forwarded)
qed

theorem stream_failure_after_k_chunks_witness:
  "fst (consume (generateContentStream
          (example_generator (Inl example_error) (yielding example_chunks (Throw 50 example_error)))
          example_request ''prompt-1'' example_world)) = Some example_error
   \<and> forwarded (trace (snd (consume (generateContentStream
          (example_generator (Inl example_error) (yielding example_chunks (Throw 50 example_error)))
          example_request ''prompt-1'' example_world)))) = map snd example_chunks
   \<and> length (emitted (trace (snd (consume (generateContentStream
          (example_generator (Inl example_error) (yielding example_chunks (Throw 50 example_error)))
          example_request ''prompt-1'' example_world))))) = 2"
proof -
  let ?G = "example_generator (Inl example_error) (yielding example_chunks (Throw 50 example_error))"
  have b: "wrapped_generateContentStream (wrapped ?G) example_request ''prompt-1''
            = (100, Inr (yielding example_chunks (Throw 50 example_error)))"
    by (simp add: example_generator_def)
  have c: "list_all (\<lambda>c. \<not> nullish (snd c)) example_chunks"
    by (simp add: example_chunks_def nullish_def)
  have s: "status_readable ?G example_error"
    by (simp add: status_readable_def example_error_def)
  have e: "trace example_world = []"
    by (simp add: example_world_def)
  note T = stream_failure_after_k_chunks[OF b c s, of example_world]
  from T have "fst (consume (generateContentStream ?G example_request ''prompt-1'' example_world))
      = Some example_error"
    by blast
  moreover from T e
  have "forwarded (trace (snd (consume (generateContentStream ?G example_request ''prompt-1''
          example_world)))) = map snd example_chunks"
    by (simp add: forwarded_append forwarded_Forwarded)
  moreover from T e
  have "length (emitted (trace (snd (consume (generateContentStream ?G example_request
          ''prompt-1'' example_world))))) = 2"
    by (simp add: emitted_append emitted_Forwarded)
  ultimately show ?thesis
    by blast
qed

text \<open>
  Claim C6, as the code has it. When every bag of the turns is serializable,
  \<^verbatim>\<open>toSemanticMessage\<close> returns the messages that these words describe; and whenever it
  returns, its messages are those: one message for each turn that has a segment list, in
  the order of the turns, with the turn's role, and in it one part for each segment that
  has a non-empty text, a function call or a function response, in the order of the
  segments. A turn without a segment list contributes no message.
\<close>

theorem toSemanticMessage_mirrors_turns:
  "(serializable_turns turns \<longrightarrow> toSemanticMessage turns = Inr (spec_toSemanticMessage turns))
   \<and> (toSemanticMessage turns = Inr messages \<longrightarrow>
        messages = spec_toSemanticMessage turns
        \<and> length messages = length (filter has_parts turns)
        \<and> map msg_role messages = map role (filter has_parts turns)
        \<and> map msg_parts messages
            = map (\<lambda>c. List.map_filter semantic_part (filter recognized (segments c)))
                (filter has_parts turns)
        \<and> map (\<lambda>m. length (msg_parts m)) messages
            = map (\<lambda>c. length (filter recognized (segments c))) (filter has_parts turns))"
proof -
  have a: "serializable_turns turns \<longrightarrow> toSemanticMessage turns = Inr (spec_toSemanticMessage turns)"
    by (simp add: toSemanticMessage_serializable)
  have b: "toSemanticMessage turns = Inr messages \<longrightarrow>
        messages = spec_toSemanticMessage turns
        \<and> length messages = length (filter has_parts turns)
        \<and> map msg_role messages = map role (filter has_parts turns)
        \<and> map msg_parts messages
            = map (\<lambda>c. List.map_filter semantic_part (filter recognized (segments c)))
                (filter has_parts turns)
        \<and> map (\<lambda>m. length (msg_parts m)) messages
            = map (\<lambda>c. length (filter recognized (segments c))) (filter has_parts turns)"
  proof
    assume "toSemanticMessage turns = Inr messages"
    then have m: "messages = spec_toSemanticMessage turns"
      by (rule toSemanticMessage_returns)
    show "messages = spec_toSemanticMessage turns
        \<and> length messages = length (filter has_parts turns)
        \<and> map msg_role messages = map role (filter has_parts turns)
        \<and> map msg_parts messages
            = map (\<lambda>c. List.map_filter semantic_part (filter recognized (segments c)))
                (filter has_parts turns)
        \<and> map (\<lambda>m. length (msg_parts m)) messages
            = map (\<lambda>c. length (filter recognized (segments c))) (filter has_parts turns)"
      unfolding m
      by (simp add: spec_length spec_roles spec_parts spec_part_counts semantic_parts_of_recognized)
  qed
  from a b show ?thesis
    by blast
qed

theorem toSemanticMessage_mirrors_turns_witness:
  "serializable_turns mixed_turns
   \<and> toSemanticMessage mixed_turns
       = Inr [\<lparr>msg_role = Some ''model'',
               msg_parts = [TextPart ''a'',
                            ToolCallRequestPart (Some ''f'') (Some ''1'') (Some ''{\"a\":1}'')]\<rparr>]
   \<and> length (filter has_parts mixed_turns) = 1"
proof -
  have s: "serializable_turns mixed_turns"
    by (simp add: mixed_turns_def serializable_turns_def segments_def serializable_part_def
        serializable_def)
  have e: "spec_toSemanticMessage mixed_turns
       = [\<lparr>msg_role = Some ''model'',
               msg_parts = [TextPart ''a'',
                            ToolCallRequestPart (Some ''f'') (Some ''1'') (Some ''{\"a\":1}'')]\<rparr>]"
    by code_simp
  have h: "length (filter has_parts mixed_turns) = 1"
    by (simp add: mixed_turns_def has_parts_def)
  from toSemanticMessage_mirrors_turns[of mixed_turns "spec_toSemanticMessage mixed_turns"] s e h
  show ?thesis
    by simp
qed

text \<open>
  A turn with three segments, a text \<^verbatim>\<open>a\<close>, a text that is the empty string and a function
  call: all three are segments in the words of the specification, and the message has two
  parts.
\<close>

theorem empty_text_segment_not_mirrored_counterexample:
  "toSemanticMessage mixed_turns
       = Inr [\<lparr>msg_role = Some ''model'',
               msg_parts = [TextPart ''a'',
                            ToolCallRequestPart (Some ''f'') (Some ''1'') (Some ''{\"a\":1}'')]\<rparr>]
   \<and> map (\<lambda>c. length (filter is_segment (segments c))) (filter has_parts mixed_turns) = [3]
   \<and> map (\<lambda>c. map is_segment (segments c)) (filter has_parts mixed_turns) = [[True, True, True]]"
  by code_simp




text \<open>
  Claim C8, as the code has it. For every list of turns whose bags are all serializable,
  \<^verbatim>\<open>toSemanticMessage\<close> returns a list of messages, no longer than the list of turns. It
  returns the empty list for the empty list, nothing for a turn without a segment list, and
  a message without parts for a turn whose segments are none or hold none of the three
  fields; and in every case its result, a list or a failure, is the one for the turns with
  their unrecognised segments removed: an unrecognised segment leaves neither an error nor a
  placeholder.
\<close>

theorem toSemanticMessage_total_omits_unrecognized:
  "(serializable_turns turns \<longrightarrow>
      (\<exists>messages. toSemanticMessage turns = Inr messages \<and> length messages \<le> length turns))
   \<and> toSemanticMessage [] = Inr []
   \<and> toSemanticMessage [\<lparr>role = r, parts = None\<rparr>] = Inr []
   \<and> toSemanticMessage [\<lparr>role = r, parts = Some []\<rparr>] = Inr [\<lparr>msg_role = r, msg_parts = []\<rparr>]
   \<and> toSemanticMessage
        [\<lparr>role = r,
          parts = Some [\<lparr>text = None, functionCall = None, functionResponse = None, other = d\<rparr>]\<rparr>]
        = Inr [\<lparr>msg_role = r, msg_parts = []\<rparr>]
   \<and> toSemanticMessage (map drop_unrecognized turns) = toSemanticMessage turns"
proof -
  have "length (spec_toSemanticMessage turns) \<le> length turns"
    by (simp add: spec_length)
  then have a: "serializable_turns turns \<longrightarrow>
      (\<exists>messages. toSemanticMessage turns = Inr messages \<and> length messages \<le> length turns)"
    by (simp add: toSemanticMessage_serializable)
  have b: "toSemanticMessage [] = Inr []
   \<and> toSemanticMessage [\<lparr>role = r, parts = None\<rparr>] = Inr []
   \<and> toSemanticMessage [\<lparr>role = r, parts = Some []\<rparr>] = Inr [\<lparr>msg_role = r, msg_parts = []\<rparr>]
   \<and> toSemanticMessage
        [\<lparr>role = r,
          parts = Some [\<lparr>text = None, functionCall = None, functionResponse = None, other = d\<rparr>]\<rparr>]
        = Inr [\<lparr>msg_role = r, msg_parts = []\<rparr>]"
    by (simp add: toSemanticMessage_def push_message_def push_part_def)
  from a b toSemanticMessage_drop_unrecognized[of turns] show ?thesis
    by blast
qed

theorem toSemanticMessage_total_witness:
  "serializable_turns mixed_turns
   \<and> (\<exists>messages. toSemanticMessage mixed_turns = Inr messages \<and> length messages \<le> 2)"
proof -
  have s: "serializable_turns mixed_turns"
    by (simp add: mixed_turns_def serializable_turns_def segments_def serializable_part_def
        serializable_def)
  have l: "length mixed_turns = 2"
    by (simp add: mixed_turns_def)
  from toSemanticMessage_total_omits_unrecognized[of mixed_turns] s l show ?thesis
    by simp
qed

text \<open>
  A function call whose argument bag holds a BigInt, and a function response whose response
  bag refers to itself: \<^verbatim>\<open>JSON.stringify\<close> raises a TypeError, and \<^verbatim>\<open>toSemanticMessage\<close> raises
  it to its caller.
\<close>

theorem unserializable_bag_counterexample:
  "toSemanticMessage
     [\<lparr>role = Some ''model'',
       parts = Some
         [\<lparr>text = None,
           functionCall =
             Some \<lparr>fc_name = Some ''f'', fc_id = Some ''1'', fc_args = UObj [(''n'', UBigInt 1)]\<rparr>,
           functionResponse = None, other = []\<rparr>]\<rparr>]
     = Inl (TypeError ''Do not know how to serialize a BigInt'')
   \<and> toSemanticMessage
     [\<lparr>role = Some ''user'',
       parts = Some
         [\<lparr>text = None, functionCall = None,
           functionResponse =
             Some \<lparr>fr_name = Some ''f'', fr_id = Some ''1'', fr_response = UObj [(''self'', UCycle)]\<rparr>,
           other = []\<rparr>]\<rparr>]
     = Inl (TypeError ''Converting circular structure to JSON'')"
  by (simp add: toSemanticMessage_def push_message_def push_part_def JSON_stringify_unknown_def)

text \<open>
  Claim C9. \<^verbatim>\<open>countTokens\<close> and \<^verbatim>\<open>embedContent\<close> settle with exactly what the wrapped generator
  settles with, a result or a failure, after calling it with the request; the events at the
  sink are the same before and after.
\<close>

theorem countTokens_embedContent_pass_through:
  "fst (countTokens this req w) = snd (wrapped_countTokens (wrapped this) req)
   \<and> trace (snd (countTokens this req w)) = trace w @ [Invoked (CountTokens req)]
   \<and> emitted (trace (snd (countTokens this req w))) = emitted (trace w)
   \<and> fst (embedContent this req w) = snd (wrapped_embedContent (wrapped this) req)
   \<and> trace (snd (embedContent this req w)) = trace w @ [Invoked (EmbedContent req)]
   \<and> emitted (trace (snd (embedContent this req w))) = emitted (trace w)"
  by (simp add: countTokens_def embedContent_def await_def emitted_append split: prod.splits)

text \<open>
  Claim C10. A turn whose segment list is present and empty yields exactly one message, with
  the turn's role and no parts, wherever it stands among the turns: the result for the turns
  around it is the result for those before it, that message, and the result for those after
  it (or the failure of the first of the two that fails). A single turn yields no message
  exactly when its segment list is absent, and the number of messages returned is the number
  of turns with a segment list; it returns whenever every bag of the turns is serializable.
\<close>

theorem empty_segment_list_keeps_turn:
  "toSemanticMessage [\<lparr>role = r, parts = Some []\<rparr>] = Inr [\<lparr>msg_role = r, msg_parts = []\<rparr>]
   \<and> toSemanticMessage (before @ [\<lparr>role = r, parts = Some []\<rparr>] @ after)
       = try_bind (toSemanticMessage before)
           (\<lambda>a. try_bind (toSemanticMessage after)
              (\<lambda>b. Inr (a @ [\<lparr>msg_role = r, msg_parts = []\<rparr>] @ b)))
   \<and> (toSemanticMessage [content] = Inr []) = (parts content = None)
   \<and> (toSemanticMessage turns = Inr messages \<longrightarrow>
        length messages = length (filter has_parts turns))
   \<and> (serializable_turns turns \<longrightarrow>
        (\<exists>ms. toSemanticMessage turns = Inr ms \<and> length ms = length (filter has_parts turns)))"
proof -
  have one: "toSemanticMessage [\<lparr>role = r, parts = Some []\<rparr>] = Inr [\<lparr>msg_role = r, msg_parts = []\<rparr>]"
    by (simp add: toSemanticMessage_def push_message_def)
  have drop: "(toSemanticMessage [content] = Inr []) = (parts content = None)"
    by (auto simp: toSemanticMessage_def push_message_def try_bind_def
        split: option.splits sum.splits)
  have tail: "toSemanticMessage ([\<lparr>role = r, parts = Some []\<rparr>] @ after)
       = try_bind (toSemanticMessage after) (\<lambda>b. Inr ([\<lparr>msg_role = r, msg_parts = []\<rparr>] @ b))"
    using toSemanticMessage_append[of "[\<lparr>role = r, parts = Some []\<rparr>]" after] one
    by simp
  have mid: "toSemanticMessage (before @ [\<lparr>role = r, parts = Some []\<rparr>] @ after)
       = try_bind (toSemanticMessage before)
           (\<lambda>a. try_bind (toSemanticMessage after)
              (\<lambda>b. Inr (a @ [\<lparr>msg_role = r, msg_parts = []\<rparr>] @ b)))"
  proof (cases "toSemanticMessage before")
    case (Inl e)
    then show ?thesis
      using toSemanticMessage_append[of before "[\<lparr>role = r, parts = Some []\<rparr>] @ after"]
      by simp
  next
    case (Inr a)
    then show ?thesis
      using toSemanticMessage_append[of before "[\<lparr>role = r, parts = Some []\<rparr>] @ after"] tail
      by (cases "toSemanticMessage after") simp_all
  qed
  have len: "toSemanticMessage turns = Inr messages \<longrightarrow>
        length messages = length (filter has_parts turns)"
    by (auto dest: toSemanticMessage_returns simp: spec_length)
  have ser: "serializable_turns turns \<longrightarrow>
        (\<exists>ms. toSemanticMessage turns = Inr ms \<and> length ms = length (filter has_parts turns))"
    by (simp add: toSemanticMessage_serializable spec_length)
  from one mid drop len ser show ?thesis
    by blast
qed

theorem empty_segment_list_keeps_turn_witness:
  "toSemanticMessage (mixed_turns @ [\<lparr>role = Some ''user'', parts = Some []\<rparr>] @ [])
       = Inr [\<lparr>msg_role = Some ''model'',
               msg_parts = [TextPart ''a'',
                            ToolCallRequestPart (Some ''f'') (Some ''1'') (Some ''{\"a\":1}'')]\<rparr>,
              \<lparr>msg_role = Some ''user'', msg_parts = []\<rparr>]
   \<and> length (filter has_parts (mixed_turns @ [\<lparr>role = Some ''user'', parts = Some []\<rparr>])) = 2"
proof -
  have m: "toSemanticMessage mixed_turns
       = Inr [\<lparr>msg_role = Some ''model'',
               msg_parts = [TextPart ''a'',
                            ToolCallRequestPart (Some ''f'') (Some ''1'') (Some ''{\"a\":1}'')]\<rparr>]"
    by code_simp
  have e: "toSemanticMessage [] = Inr []"
    by (simp add: toSemanticMessage_def)
  note T = empty_segment_list_keeps_turn[of "Some ''user''" mixed_turns "[]" _
      "mixed_turns @ [\<lparr>role = Some ''user'', parts = Some []\<rparr>]"
      "[\<lparr>msg_role = Some ''model'',
               msg_parts = [TextPart ''a'',
                            ToolCallRequestPart (Some ''f'') (Some ''1'') (Some ''{\"a\":1}'')]\<rparr>,
              \<lparr>msg_role = Some ''user'', msg_parts = []\<rparr>]"]
  from T m e have r: "toSemanticMessage (mixed_turns @ [\<lparr>role = Some ''user'', parts = Some []\<rparr>] @ [])
       = Inr [\<lparr>msg_role = Some ''model'',
               msg_parts = [TextPart ''a'',
                            ToolCallRequestPart (Some ''f'') (Some ''1'') (Some ''{\"a\":1}'')]\<rparr>,
              \<lparr>msg_role = Some ''user'', msg_parts = []\<rparr>]"
    by simp
  from T r have "length (filter has_parts (mixed_turns @ [\<lparr>role = Some ''user'', parts = Some []\<rparr>]))
       = length [\<lparr>msg_role = Some ''model'',
               msg_parts = [TextPart ''a'',
                            ToolCallRequestPart (Some ''f'') (Some ''1'') (Some ''{\"a\":1}'')]\<rparr>,
              \<lparr>msg_role = Some ''user'', msg_parts = []\<rparr>]"
    by simp
  with r show ?thesis
    by simp
qed

end
